theory Spec2Isabelle
  imports Complex_Main "HOL-Library.Product_Lexorder"
begin

section \<open>PocketLedger server: OTP authentication and expense aggregation\<close>

text \<open>
  A shallow embedding of the server's controllers
  (\<^verbatim>\<open>authController\<close>, \<^verbatim>\<open>categoryController\<close>, \<^verbatim>\<open>expenseController\<close>) and of the
  \<^verbatim>\<open>authenticate\<close> middleware. Conventions:
  \<^item> a \<^verbatim>\<open>Date\<close> is its \<^verbatim>\<open>getTime()\<close> value, an \<open>int\<close> of milliseconds;
  \<^item> a finite JavaScript \<^verbatim>\<open>number\<close> is the \<open>real\<close> it denotes, and an arithmetic
    operation of the controllers on numbers is the IEEE 754 double operation: the exact
    result rounded to the nearest double (see the section on doubles);
  \<^item> the \<^verbatim>\<open>$sum\<close> accumulator of MongoDB over amounts is a parameter \<open>dsum\<close> of the
    aggregations: \<open>dsum xs\<close> is the number the server returns for the amounts \<open>xs\<close>
    taken in document order;
  \<^item> an optional field (\<^verbatim>\<open>undefined\<close>) is an \<open>option\<close>;
  \<^item> a MongoDB collection is the list of its documents;
  \<^item> calls into libraries (\<^verbatim>\<open>Math.random\<close>, \<^verbatim>\<open>ObjectId.isValid\<close>, \<^verbatim>\<open>jwt.sign\<close>,
    \<^verbatim>\<open>jwt.verify\<close>, \<^verbatim>\<open>parseFloat\<close>, the local-time calendar of \<^verbatim>\<open>Date\<close>) are
    parameters of the functions that make them;
  \<^item> a handler is a function of the request and the store that returns the response
    and the new store. The store answers every query; the errors a handler's
    \<^verbatim>\<open>catch\<close> turns into a 500 are modelled where the source can raise them (schema
    validation and unique indexes on \<^verbatim>\<open>save\<close>, casts of malformed ids), and
    \<^verbatim>\<open>Category.insertMany\<close> is a parameter that may throw in any way;
  \<^item> strings are lists of bytes, so lengths count bytes.
\<close>

subsection \<open>Number.prototype.toString on integers\<close>

definition digit :: "nat \<Rightarrow> char" where
  "digit d = ''0123456789'' ! d"

function toString_nat :: "nat \<Rightarrow> string" where
  "toString_nat n = (if n < 10 then [digit n] else toString_nat (n div 10) @ [digit (n mod 10)])"
  by pat_completeness auto
termination
  by (relation "measure id") auto

definition toString :: "int \<Rightarrow> string" where
  "toString i = (if i < 0 then CHR ''-'' # toString_nat (nat (- i)) else toString_nat (nat i))"

subsection \<open>IEEE 754 doubles\<close>

text \<open>
  Rounding to the nearest integer, a tie going to the even one.
\<close>

definition roundTiesToEven :: "real \<Rightarrow> int" where
  "roundTiesToEven y =
     (let f = \<lfloor>y\<rfloor>; d = y - of_int f
      in if d < 1 / 2 then f else if 1 / 2 < d then f + 1 else if even f then f else f + 1)"

text \<open>
  \<open>binade x\<close> is the exponent \<open>e\<close> with \<open>2 powi e \<le> \<bar>x\<bar> < 2 powi (e + 1)\<close>, kept between
  -1022 (below which the doubles are subnormal) and 1024, found by halving or doubling;
  \<open>ulp x\<close> is the distance between neighbouring doubles there, the significand having
  53 bits.
\<close>

function expo_up :: "real \<Rightarrow> int \<Rightarrow> int" where
  "expo_up x e = (if 2 \<le> x \<and> e < 1024 then expo_up (x / 2) (e + 1) else e)"
  by pat_completeness auto
termination
  by (relation "measure (\<lambda>(x, e). nat (1024 - e))") auto

function expo_down :: "real \<Rightarrow> int \<Rightarrow> int" where
  "expo_down x e = (if x < 1 \<and> - 1022 < e then expo_down (x * 2) (e - 1) else e)"
  by pat_completeness auto
termination
  by (relation "measure (\<lambda>(x, e). nat (e + 1022))") auto

definition binade :: "real \<Rightarrow> int" where
  "binade x = (if 1 \<le> \<bar>x\<bar> then expo_up \<bar>x\<bar> 0 else expo_down \<bar>x\<bar> 0)"

definition ulp :: "real \<Rightarrow> real" where
  "ulp x = 2 powi (binade x - 52)"

text \<open>
  \<open>roundToDouble x\<close> is the double nearest to \<open>x\<close> (round to nearest, ties to even), were
  the exponent range unbounded above; \<open>fl x\<close> is the result of an operation whose exact
  value is \<open>x\<close>: that double, or \<open>None\<close> when it is not finite (the operation overflows
  to an infinity).
\<close>

definition roundToDouble :: "real \<Rightarrow> real" where
  "roundToDouble x = (if x = 0 then 0 else of_int (roundTiesToEven (x / ulp x)) * ulp x)"

definition fl :: "real \<Rightarrow> real option" where
  "fl x = (let r = roundToDouble x in if \<bar>r\<bar> < 2 ^ 1024 then Some r else None)"

text \<open>
  Division and multiplication of numbers. A value \<open>None\<close> is a number that is not finite
  (\<^verbatim>\<open>NaN\<close> or an infinity); a division by zero gives one, and so does every product
  with one.
\<close>

definition js_div :: "real \<Rightarrow> real \<Rightarrow> real option" where
  "js_div x y = (if y = 0 then None else fl (x / y))"

definition js_mul :: "real option \<Rightarrow> real \<Rightarrow> real option" where
  "js_mul a y = (case a of None \<Rightarrow> None | Some x \<Rightarrow> fl (x * y))"

subsection \<open>authController: generateOTP\<close>

text \<open>
  \<^verbatim>\<open>Math.floor(100000 + Math.random() * 900000).toString()\<close>; the argument \<open>r\<close> is the
  value \<^verbatim>\<open>Math.random()\<close> returned, a double with \<open>0 \<le> r < 1\<close>, hence at most
  \<open>1 - 1 / 2 ^ 53\<close>. The product and the sum are double operations; \<open>otpNumber r\<close> is
  the floor, \<open>None\<close> when it is not finite, which prints as an infinity.
\<close>

definition otpNumber :: "real \<Rightarrow> int option" where
  "otpNumber r =
     (case fl (r * 900000) of
        None \<Rightarrow> None
      | Some p \<Rightarrow> (case fl (100000 + p) of None \<Rightarrow> None | Some s \<Rightarrow> Some \<lfloor>s\<rfloor>))"

definition generateOTP :: "real \<Rightarrow> string" where
  "generateOTP r =
     (case otpNumber r of
        Some n \<Rightarrow> toString n
      | None \<Rightarrow> if r < 0 then ''-Infinity'' else ''Infinity'')"

subsection \<open>Documents, collections and responses\<close>

type_synonym instant = int

text \<open>\<^verbatim>\<open>IUser\<close> with the fields of \<^verbatim>\<open>UserSchema\<close>; \<open>u_id\<close> is \<^verbatim>\<open>_id.toString()\<close>.\<close>

record user =
  u_id :: string
  u_phoneNumber :: string
  u_otp :: "string option"
  u_otpExpires :: "instant option"
  u_isVerified :: bool
  u_createdAt :: instant
  u_updatedAt :: instant

text \<open>\<^verbatim>\<open>ICategory\<close> with the fields of \<^verbatim>\<open>CategorySchema\<close>. Icons are kept as UTF-8 bytes.\<close>

record category =
  c_id :: string
  c_name :: string
  c_color :: string
  c_icon :: "string option"
  c_userId :: string
  c_createdAt :: instant
  c_updatedAt :: instant

text \<open>\<^verbatim>\<open>IExpense\<close> with the fields of \<^verbatim>\<open>ExpenseSchema\<close>; \<open>e_userId\<close> is of schema type String.\<close>

record expense =
  e_id :: string
  e_amount :: real
  e_description :: string
  e_categoryId :: string
  e_date :: instant
  e_receiptUrl :: "string option"
  e_userId :: string
  e_createdAt :: instant
  e_updatedAt :: instant

text \<open>
  The persistent state: the three collections and the names of the files in the
  \<^verbatim>\<open>uploads\<close> directory.
\<close>

record db =
  users :: "user list"
  categories :: "category list"
  expenses :: "expense list"
  uploads :: "string list"

text \<open>
  \<^verbatim>\<open>res.status(s).json({ success, message, data })\<close>; a response without a message has
  the empty message.
\<close>

datatype 'a response = Response (status: nat) (success: bool) (message: string) (data: "'a option")

subsection \<open>String.prototype.trim\<close>

text \<open>
  The white space and line terminator characters of ECMAScript, each as its UTF-8 bytes:
  U+0009 to U+000D, U+0020, U+00A0, U+1680, U+2000 to U+200A, U+2028, U+2029, U+202F,
  U+205F, U+3000 and U+FEFF.
\<close>

definition whiteSpace :: "string list" where
  "whiteSpace =
     [[CHR 0x09], [CHR 0x0A], [CHR 0x0B], [CHR 0x0C], [CHR 0x0D], [CHR 0x20],
      [CHR 0xC2, CHR 0xA0], [CHR 0xE1, CHR 0x9A, CHR 0x80],
      [CHR 0xE2, CHR 0x80, CHR 0x80], [CHR 0xE2, CHR 0x80, CHR 0x81],
      [CHR 0xE2, CHR 0x80, CHR 0x82], [CHR 0xE2, CHR 0x80, CHR 0x83],
      [CHR 0xE2, CHR 0x80, CHR 0x84], [CHR 0xE2, CHR 0x80, CHR 0x85],
      [CHR 0xE2, CHR 0x80, CHR 0x86], [CHR 0xE2, CHR 0x80, CHR 0x87],
      [CHR 0xE2, CHR 0x80, CHR 0x88], [CHR 0xE2, CHR 0x80, CHR 0x89],
      [CHR 0xE2, CHR 0x80, CHR 0x8A], [CHR 0xE2, CHR 0x80, CHR 0xA8],
      [CHR 0xE2, CHR 0x80, CHR 0xA9], [CHR 0xE2, CHR 0x80, CHR 0xAF],
      [CHR 0xE2, CHR 0x81, CHR 0x9F], [CHR 0xE3, CHR 0x80, CHR 0x80],
      [CHR 0xEF, CHR 0xBB, CHR 0xBF]]"

text \<open>
  \<open>strip ws s\<close> removes from the front of \<open>s\<close> every leading occurrence of a sequence of
  \<open>ws\<close>; \<open>trim\<close> strips the white space from the front and, on the reversed string
  with the reversed sequences, from the end.
\<close>

function strip :: "string list \<Rightarrow> string \<Rightarrow> string" where
  "strip ws s =
     (case find (\<lambda>w. w \<noteq> [] \<and> take (length w) s = w) ws of
        None \<Rightarrow> s
      | Some w \<Rightarrow> strip ws (drop (length w) s))"
  by pat_completeness auto
termination
proof (relation "measure (\<lambda>(ws, s). length s)")
  show "wf (measure (\<lambda>(ws, s). length s))" by simp
next
  fix ws :: "string list" and s w :: string
  assume "find (\<lambda>w. w \<noteq> [] \<and> take (length w) s = w) ws = Some w"
  then have "w \<noteq> []" and "take (length w) s = w" by (auto simp: find_Some_iff)
  then have "0 < length w" by simp
  moreover from \<open>take (length w) s = w\<close> have "length (take (length w) s) = length w"
    by (rule arg_cong)
  then have "length w \<le> length s" by simp
  ultimately have "length s - length w < length s" by linarith
  then show "((ws, drop (length w) s), (ws, s)) \<in> measure (\<lambda>(ws, s). length s)" by simp
qed

definition trim :: "string \<Rightarrow> string" where
  "trim s = rev (strip (map rev whiteSpace) (rev (strip whiteSpace s)))"

subsection \<open>User collection\<close>

text \<open>
  \<^verbatim>\<open>User.findOne({ phoneNumber })\<close> and \<^verbatim>\<open>User.findById(id)\<close>. The schema declares
  \<^verbatim>\<open>phoneNumber\<close> with \<^verbatim>\<open>trim: true\<close>, and mongoose applies that setter when it casts the
  filter of a query and when it sets the field of a document.
\<close>

definition User_findOne :: "string \<Rightarrow> user list \<Rightarrow> user option" where
  "User_findOne phoneNumber us = find (\<lambda>u. u_phoneNumber u = trim phoneNumber) us"

definition User_findById :: "string \<Rightarrow> user list \<Rightarrow> user option" where
  "User_findById i us = find (\<lambda>u. u_id u = i) us"

text \<open>
  \<^verbatim>\<open>user.save()\<close>: a new document is inserted, a document that was read from the
  collection is written back under its \<^verbatim>\<open>_id\<close>.
\<close>

definition User_insert :: "user \<Rightarrow> user list \<Rightarrow> user list" where
  "User_insert u us = us @ [u]"

definition User_update :: "user \<Rightarrow> user list \<Rightarrow> user list" where
  "User_update u us = map (\<lambda>x. if u_id x = u_id u then u else x) us"

subsection \<open>authController: generateToken, createDefaultCategories\<close>

text \<open>
  \<^verbatim>\<open>jwt.sign({ userId }, process.env.JWT_SECRET, { expiresIn: '30d' })\<close>; \<open>sign\<close> is that
  call as a function of the user id (with \<^verbatim>\<open>JWT_SECRET\<close> set, so that it returns).
\<close>

definition generateToken :: "(string \<Rightarrow> string) \<Rightarrow> string \<Rightarrow> string" where
  "generateToken sign userId = sign userId"

definition defaultCategories :: "(string \<times> string \<times> string) list" where
  "defaultCategories =
    [(''Food'', ''#10B981'', [CHR 0xF0, CHR 0x9F, CHR 0x8D, CHR 0xBD, CHR 0xEF, CHR 0xB8, CHR 0x8F]),
     (''Travel'', ''#3B82F6'', [CHR 0xE2, CHR 0x9C, CHR 0x88, CHR 0xEF, CHR 0xB8, CHR 0x8F]),
     (''Stationery'', ''#F59E0B'', [CHR 0xF0, CHR 0x9F, CHR 0x93, CHR 0x9D]),
     (''Fast Food'', ''#EF4444'', [CHR 0xF0, CHR 0x9F, CHR 0x8D, CHR 0x95]),
     (''Shopping'', ''#8B5CF6'', [CHR 0xF0, CHR 0x9F, CHR 0x9B, CHR 0x8D, CHR 0xEF, CHR 0xB8, CHR 0x8F]),
     (''Entertainment'', ''#EC4899'', [CHR 0xF0, CHR 0x9F, CHR 0x8E, CHR 0xAC])]"

text \<open>
  The documents handed to \<^verbatim>\<open>Category.insertMany\<close>: each default with the user id added;
  \<open>oid k\<close> is the \<open>k\<close>-th fresh \<^verbatim>\<open>ObjectId\<close> generated while the request is served.
\<close>

definition defaultCategoryDocs :: "(nat \<Rightarrow> string) \<Rightarrow> instant \<Rightarrow> string \<Rightarrow> category list" where
  "defaultCategoryDocs oid now userId =
     map (\<lambda>(k, (n, col, ic)).
            \<lparr>c_id = oid (Suc k), c_name = n, c_color = col, c_icon = Some ic, c_userId = userId,
             c_createdAt = now, c_updatedAt = now\<rparr>)
         (enumerate 0 defaultCategories)"

text \<open>
  \<^verbatim>\<open>Category.insertMany\<close> as it behaves on a collection with the unique index
  \<^verbatim>\<open>{ userId: 1, name: 1 }\<close> of \<^verbatim>\<open>CategorySchema\<close>: the documents are inserted in order
  and the call throws at the first one whose (userId, name) pair is already present,
  the earlier ones staying inserted. The result is (threw, collection).
\<close>

fun Category_insertMany :: "category list \<Rightarrow> category list \<Rightarrow> bool \<times> category list" where
  "Category_insertMany [] coll = (False, coll)"
| "Category_insertMany (d # ds) coll =
     (if list_ex (\<lambda>c. c_userId c = c_userId d \<and> c_name c = c_name d) coll then (True, coll)
      else Category_insertMany ds (coll @ [d]))"

text \<open>
  \<^verbatim>\<open>createDefaultCategories\<close>: the body is a \<^verbatim>\<open>try\<close> whose \<^verbatim>\<open>catch\<close> only logs, so the
  function returns normally whether \<open>insertMany\<close> threw or not. \<open>insertMany\<close> is the
  storage call, a parameter so that every way it can fail is covered; the result is the
  collection it left behind.
\<close>

definition createDefaultCategories ::
  "(category list \<Rightarrow> category list \<Rightarrow> bool \<times> category list) \<Rightarrow> (nat \<Rightarrow> string) \<Rightarrow> instant
     \<Rightarrow> string \<Rightarrow> category list \<Rightarrow> category list" where
  "createDefaultCategories insertMany oid now userId coll =
     (case insertMany (defaultCategoryDocs oid now userId) coll of
        (True, coll') \<Rightarrow> coll'
      | (False, coll') \<Rightarrow> coll')"

subsection \<open>authController: sendOTP\<close>

definition isDigit :: "char \<Rightarrow> bool" where
  "isDigit c = (c \<in> set ''0123456789'')"

text \<open>\<^verbatim>\<open>/^\+[1-9]\d{1,14}$/.test(s)\<close>\<close>

fun phoneRegex_test :: "string \<Rightarrow> bool" where
  "phoneRegex_test (c0 # c1 # cs) =
     (c0 = CHR ''+'' \<and> isDigit c1 \<and> c1 \<noteq> CHR ''0'' \<and> 1 \<le> length cs \<and> length cs \<le> 14
      \<and> list_all isDigit cs)"
| "phoneRegex_test _ = False"

text \<open>
  \<^verbatim>\<open>phoneNumber.replace(/.(?=.{4})/g, '*')\<close>: every character followed by at least four
  more becomes an asterisk (the number has passed \<open>phoneRegex_test\<close>, so it holds no
  line terminator).
\<close>

definition maskPhone :: "string \<Rightarrow> string" where
  "maskPhone s = replicate (length s - 4) (CHR ''*'') @ drop (length s - 4) s"

record sendOTP_data =
  sd_phoneNumber :: string
  sd_developmentOTP :: "string option"

text \<open>
  \<open>rand\<close> is the value of \<^verbatim>\<open>Math.random()\<close>, \<open>now\<close> the clock, \<open>nodeEnv\<close> is
  \<^verbatim>\<open>process.env.NODE_ENV\<close>. \<open>sms\<close> is \<open>None\<close> when the Twilio client or
  \<^verbatim>\<open>TWILIO_PHONE_NUMBER\<close> is not configured; otherwise \<open>Some send\<close>, where
  \<open>send to body\<close> is False when \<^verbatim>\<open>client.messages.create\<close> throws.
\<close>

definition sendOTP ::
  "real \<Rightarrow> (nat \<Rightarrow> string) \<Rightarrow> (string \<Rightarrow> string \<Rightarrow> bool) option \<Rightarrow> string \<Rightarrow> instant
     \<Rightarrow> string option \<Rightarrow> db \<Rightarrow> sendOTP_data response \<times> db" where
  "sendOTP rand oid sms nodeEnv now body_phoneNumber d =
    (case body_phoneNumber of
       None \<Rightarrow> (Response 400 False ''Phone number is required'' None, d)
     | Some phoneNumber \<Rightarrow>
        if phoneNumber = [] then (Response 400 False ''Phone number is required'' None, d)
        else if \<not> phoneRegex_test phoneNumber then
          (Response 400 False
             ''Invalid phone number format. Please include country code (e.g., +1234567890)'' None, d)
        else
          let otp = generateOTP rand;
              otpExpires = now + 10 * 60 * 1000;
              users' =
                (case User_findOne phoneNumber (users d) of
                   None \<Rightarrow>
                     User_insert
                       \<lparr>u_id = oid 0, u_phoneNumber = trim phoneNumber, u_otp = Some otp,
                        u_otpExpires = Some otpExpires, u_isVerified = False,
                        u_createdAt = now, u_updatedAt = now\<rparr> (users d)
                 | Some user \<Rightarrow>
                     User_update
                       (user\<lparr>u_otp := Some otp, u_otpExpires := Some otpExpires, u_updatedAt := now\<rparr>)
                       (users d));
              d' = d\<lparr>users := users'\<rparr>
          in (case sms of
                Some send \<Rightarrow>
                  if send phoneNumber
                       (''Your PocketLedger verification code is: '' @ otp @ ''. Valid for 10 minutes.'')
                  then (Response 200 True ''OTP sent successfully''
                          (Some \<lparr>sd_phoneNumber = maskPhone phoneNumber, sd_developmentOTP = None\<rparr>), d')
                  else (Response 500 False
                          ''Failed to send OTP. Please check your phone number and try again.'' None, d')
              | None \<Rightarrow>
                  (Response 200 True
                     ''OTP generated successfully (Check server console for development OTP)''
                     (Some \<lparr>sd_phoneNumber = maskPhone phoneNumber,
                            sd_developmentOTP = (if nodeEnv = ''development'' then Some otp else None)\<rparr>),
                   d')))"

subsection \<open>authController: verifyOTP\<close>

record verifyOTP_data =
  vd_token :: string
  vd_id :: string
  vd_phoneNumber :: string
  vd_isVerified :: bool
  vd_createdAt :: instant

text \<open>
  The body fields are strings when present. \<^verbatim>\<open>user.otp !== otp\<close> is strict inequality
  of the stored code (possibly \<^verbatim>\<open>undefined\<close>) and the submitted string; a \<^verbatim>\<open>Date\<close> is
  truthy, so \<^verbatim>\<open>!user.otpExpires\<close> holds exactly when the field is absent.
\<close>

definition verifyOTP ::
  "(string \<Rightarrow> string) \<Rightarrow> (category list \<Rightarrow> category list \<Rightarrow> bool \<times> category list)
     \<Rightarrow> (nat \<Rightarrow> string) \<Rightarrow> instant \<Rightarrow> string option \<Rightarrow> string option \<Rightarrow> db
     \<Rightarrow> verifyOTP_data response \<times> db" where
  "verifyOTP sign insertMany oid now body_phoneNumber body_otp d =
    (case (body_phoneNumber, body_otp) of
       (Some phoneNumber, Some otp) \<Rightarrow>
         if phoneNumber = [] \<or> otp = [] then
           (Response 400 False ''Phone number and OTP are required'' None, d)
         else
           (case User_findOne phoneNumber (users d) of
              None \<Rightarrow> (Response 404 False ''User not found. Please request a new OTP.'' None, d)
            | Some user \<Rightarrow>
                if u_otp user \<noteq> Some otp then (Response 400 False ''Invalid OTP'' None, d)
                else if (case u_otpExpires user of None \<Rightarrow> True | Some e \<Rightarrow> e < now) then
                  (Response 400 False ''OTP has expired. Please request a new one.'' None, d)
                else
                  let isNewUser = \<not> u_isVerified user;
                      user' = user\<lparr>u_otp := None, u_otpExpires := None, u_isVerified := True,
                                   u_updatedAt := now\<rparr>;
                      d1 = d\<lparr>users := User_update user' (users d)\<rparr>;
                      d2 = (if isNewUser then
                              d1\<lparr>categories :=
                                   createDefaultCategories insertMany oid now (u_id user) (categories d1)\<rparr>
                            else d1);
                      token = generateToken sign (u_id user)
                  in (Response 200 True ''Phone number verified successfully''
                        (Some \<lparr>vd_token = token, vd_id = u_id user', vd_phoneNumber = u_phoneNumber user',
                               vd_isVerified = u_isVerified user', vd_createdAt = u_createdAt user'\<rparr>),
                      d2))
     | _ \<Rightarrow> (Response 400 False ''Phone number and OTP are required'' None, d))"

text \<open>\<^verbatim>\<open>UserSchema.methods.isOTPValid\<close>\<close>

definition isOTPValid :: "instant \<Rightarrow> user \<Rightarrow> string \<Rightarrow> bool" where
  "isOTPValid now u otp =
     (u_otp u = Some otp \<and> (case u_otpExpires u of None \<Rightarrow> False | Some e \<Rightarrow> e > now))"

text \<open>The two OTP failures of the error taxonomy, as \<open>verifyOTP\<close> sends them.\<close>

definition InvalidCode :: "'a response" where
  "InvalidCode = Response 400 False ''Invalid OTP'' None"

definition Expired :: "'a response" where
  "Expired = Response 400 False ''OTP has expired. Please request a new one.'' None"

subsection \<open>middleware: authenticate\<close>

text \<open>
  The errors \<^verbatim>\<open>jwt.verify\<close> throws. In \<^verbatim>\<open>jsonwebtoken\<close> both \<^verbatim>\<open>TokenExpiredError\<close> and
  \<^verbatim>\<open>NotBeforeError\<close> inherit from \<^verbatim>\<open>JsonWebTokenError\<close>.
\<close>

datatype jwt_error = JsonWebTokenError | TokenExpiredError | NotBeforeError

fun instanceof_JsonWebTokenError :: "jwt_error \<Rightarrow> bool" where
  "instanceof_JsonWebTokenError _ = True"

record JWTPayload =
  jp_userId :: string
  jp_iat :: instant
  jp_exp :: instant

text \<open>\<^verbatim>\<open>req.user\<close>\<close>

record req_user =
  ru_userId :: string
  ru_phoneNumber :: string

text \<open>
  \<open>verify token secret\<close> is \<^verbatim>\<open>jwt.verify(token, process.env.JWT_SECRET)\<close> at the time of
  the request: \<open>Inr\<close> the payload when the signature verifies against the secret and
  the embedded expiry has not passed, \<open>Inl\<close> the error thrown otherwise. \<open>isValid\<close> is
  \<^verbatim>\<open>mongoose.Types.ObjectId.isValid\<close>; \<^verbatim>\<open>User.findById\<close> throws a \<^verbatim>\<open>CastError\<close> on an id
  that is no ObjectId, which the \<^verbatim>\<open>catch\<close> answers with 500. The result is \<open>Inl\<close> the
  response sent, or \<open>Inr\<close> the \<^verbatim>\<open>req.user\<close> with which \<^verbatim>\<open>next()\<close> is called.
\<close>

definition authenticate ::
  "(string \<Rightarrow> string \<Rightarrow> jwt_error + JWTPayload) \<Rightarrow> (string \<Rightarrow> bool) \<Rightarrow> string option
     \<Rightarrow> string option \<Rightarrow> user list \<Rightarrow> unit response + req_user" where
  "authenticate verify isValid jwtSecret authHeader us =
    (case authHeader of
       None \<Rightarrow> Inl (Response 401 False ''Access denied. No token provided or invalid format.'' None)
     | Some h \<Rightarrow>
        if take 7 h \<noteq> ''Bearer '' then
          Inl (Response 401 False ''Access denied. No token provided or invalid format.'' None)
        else
          let token = drop 7 h in
          (case jwtSecret of
             None \<Rightarrow> Inl (Response 500 False ''Server configuration error.'' None)
           | Some secret \<Rightarrow>
              if secret = [] then Inl (Response 500 False ''Server configuration error.'' None)
              else
                (case verify token secret of
                   Inl err \<Rightarrow>
                     if instanceof_JsonWebTokenError err then
                       Inl (Response 401 False ''Invalid token.'' None)
                     else if err = TokenExpiredError then
                       Inl (Response 401 False ''Token expired. Please login again.'' None)
                     else Inl (Response 500 False ''Internal server error during authentication.'' None)
                 | Inr decoded \<Rightarrow>
                     if \<not> isValid (jp_userId decoded) then
                       Inl (Response 500 False ''Internal server error during authentication.'' None)
                     else
                       (case User_findById (jp_userId decoded) us of
                          None \<Rightarrow> Inl (Response 401 False ''User no longer exists.'' None)
                        | Some user \<Rightarrow>
                            if \<not> u_isVerified user then
                              Inl (Response 401 False
                                     ''Account not verified. Please verify your phone number.'' None)
                            else Inr \<lparr>ru_userId = u_id user, ru_phoneNumber = u_phoneNumber user\<rparr>))))"

text \<open>
  \<^verbatim>\<open>router.use(authenticate)\<close> of the category and expense routers, and
  \<^verbatim>\<open>router.get('/me', authenticate, getCurrentUser)\<close>: the handler runs only after
  \<open>authenticate\<close> has called \<^verbatim>\<open>next()\<close>, with the \<^verbatim>\<open>req.user\<close> it set.
\<close>

definition router_use_authenticate ::
  "(string \<Rightarrow> string \<Rightarrow> jwt_error + JWTPayload) \<Rightarrow> (string \<Rightarrow> bool) \<Rightarrow> string option
     \<Rightarrow> string option \<Rightarrow> user list \<Rightarrow> (req_user \<Rightarrow> 'a) \<Rightarrow> unit response + 'a" where
  "router_use_authenticate verify isValid jwtSecret authHeader us handler =
     (case authenticate verify isValid jwtSecret authHeader us of
        Inl r \<Rightarrow> Inl r
      | Inr u \<Rightarrow> Inr (handler u))"

subsection \<open>Strings and files\<close>

text \<open>
  \<^verbatim>\<open>!x\<close> for an optional string (\<^verbatim>\<open>undefined\<close> and the empty string are falsy):
  \<open>truthy x\<close> is the string when it is truthy.
\<close>

definition truthy :: "string option \<Rightarrow> string option" where
  "truthy x = (case x of None \<Rightarrow> None | Some s \<Rightarrow> if s = [] then None else Some s)"

text \<open>
  \<^verbatim>\<open>path.basename\<close> of a receipt URL \<^verbatim>\<open>/uploads/<filename>\<close>, and the removal of that file
  from the uploads directory when it exists (\<^verbatim>\<open>fs.existsSync\<close>, \<^verbatim>\<open>fs.unlinkSync\<close>).
\<close>

definition basename :: "string \<Rightarrow> string" where
  "basename url = rev (takeWhile (\<lambda>c. c \<noteq> CHR ''/'') (rev url))"

definition unlinkReceipt :: "string option \<Rightarrow> string list \<Rightarrow> string list" where
  "unlinkReceipt receiptUrl files =
     (case truthy receiptUrl of
        None \<Rightarrow> files
      | Some url \<Rightarrow> filter (\<lambda>f. f \<noteq> basename url) files)"

subsection \<open>Category collection\<close>

text \<open>\<^verbatim>\<open>Category.findOne({ _id: id, userId })\<close>\<close>

definition Category_findOne :: "string \<Rightarrow> string \<Rightarrow> category list \<Rightarrow> category option" where
  "Category_findOne i userId cats = find (\<lambda>c. c_id c = i \<and> c_userId c = userId) cats"

text \<open>\<^verbatim>\<open>Category.findOne({ name, userId, _id: { $ne: id } })\<close>\<close>

definition Category_findOther :: "string \<Rightarrow> string \<Rightarrow> string \<Rightarrow> category list \<Rightarrow> category option" where
  "Category_findOther n userId i cats =
     find (\<lambda>c. c_name c = n \<and> c_userId c = userId \<and> c_id c \<noteq> i) cats"

text \<open>\<^verbatim>\<open>Category.findByIdAndDelete(id)\<close>\<close>

definition Category_findByIdAndDelete :: "string \<Rightarrow> category list \<Rightarrow> category list" where
  "Category_findByIdAndDelete i cats = filter (\<lambda>c. c_id c \<noteq> i) cats"

definition isHex :: "char \<Rightarrow> bool" where
  "isHex c = (c \<in> set ''0123456789abcdefABCDEF'')"

text \<open>\<^verbatim>\<open>/^#([A-Fa-f0-9]{6}|[A-Fa-f0-9]{3})$/.test(s)\<close>\<close>

fun colorRegex_test :: "string \<Rightarrow> bool" where
  "colorRegex_test (c0 # cs) =
     (c0 = CHR ''#'' \<and> (length cs = 6 \<or> length cs = 3) \<and> list_all isHex cs)"
| "colorRegex_test _ = False"

text \<open>
  \<^verbatim>\<open>category.save()\<close> of a document read from the collection: the validators of
  \<^verbatim>\<open>CategorySchema\<close> (name required and at most 50 long, color required and matching the
  hex pattern, userId required), then the pre-save hook and the unique index on
  (userId, name). \<open>None\<close> is a thrown error.
\<close>

definition Category_validate :: "category \<Rightarrow> bool" where
  "Category_validate c =
     (c_name c \<noteq> [] \<and> length (c_name c) \<le> 50 \<and> colorRegex_test (c_color c) \<and> c_userId c \<noteq> [])"

definition Category_save :: "category \<Rightarrow> category list \<Rightarrow> category list option" where
  "Category_save c cats =
     (if \<not> Category_validate c then None
      else if Category_findOther (c_name c) (c_userId c) (c_id c) cats \<noteq> None then None
      else Some (map (\<lambda>x. if c_id x = c_id c then c else x) cats))"

subsection \<open>categoryController: getCategoryById, updateCategory, deleteCategory\<close>

record category_data =
  cd_id :: string
  cd_name :: string
  cd_color :: string
  cd_icon :: "string option"
  cd_createdAt :: instant
  cd_updatedAt :: instant

definition transformCategory :: "category \<Rightarrow> category_data" where
  "transformCategory c =
     \<lparr>cd_id = c_id c, cd_name = c_name c, cd_color = c_color c, cd_icon = c_icon c,
      cd_createdAt = c_createdAt c, cd_updatedAt = c_updatedAt c\<rparr>"

text \<open>\<open>userId\<close> is \<^verbatim>\<open>req.user?.userId\<close>, \<open>i\<close> is \<^verbatim>\<open>req.params.id\<close>.\<close>

definition getCategoryById ::
  "(string \<Rightarrow> bool) \<Rightarrow> string option \<Rightarrow> string \<Rightarrow> db \<Rightarrow> category_data response \<times> db" where
  "getCategoryById isValid userId i d =
    (case truthy userId of
       None \<Rightarrow> (Response 401 False ''User not authenticated'' None, d)
     | Some uid \<Rightarrow>
        if \<not> isValid i then (Response 400 False ''Invalid category ID'' None, d)
        else
          (case Category_findOne i uid (categories d) of
             None \<Rightarrow> (Response 404 False ''Category not found'' None, d)
           | Some c \<Rightarrow> (Response 200 True [] (Some (transformCategory c)), d)))"

definition updateCategory ::
  "(string \<Rightarrow> bool) \<Rightarrow> instant \<Rightarrow> string option \<Rightarrow> string \<Rightarrow> string option \<Rightarrow> string option
     \<Rightarrow> string option \<Rightarrow> db \<Rightarrow> category_data response \<times> db" where
  "updateCategory isValid now userId i body_name body_color body_icon d =
    (case truthy userId of
       None \<Rightarrow> (Response 401 False ''User not authenticated'' None, d)
     | Some uid \<Rightarrow>
        if \<not> isValid i then (Response 400 False ''Invalid category ID'' None, d)
        else
          (case (truthy body_name, truthy body_color) of
             (Some n, Some col) \<Rightarrow>
               (case Category_findOne i uid (categories d) of
                  None \<Rightarrow> (Response 404 False ''Category not found'' None, d)
                | Some c \<Rightarrow>
                    if Category_findOther (trim n) uid i (categories d) \<noteq> None then
                      (Response 400 False ''Category with this name already exists'' None, d)
                    else
                      let c1 = c\<lparr>c_name := trim n, c_color := col\<rparr>;
                          c2 = (case body_icon of None \<Rightarrow> c1 | Some ic \<Rightarrow> c1\<lparr>c_icon := Some (trim ic)\<rparr>);
                          c3 = c2\<lparr>c_updatedAt := now\<rparr>
                      in (case Category_save c3 (categories d) of
                            None \<Rightarrow> (Response 500 False ''Internal server error'' None, d)
                          | Some cats' \<Rightarrow>
                              (Response 200 True ''Category updated successfully''
                                 (Some (transformCategory c3)), d\<lparr>categories := cats'\<rparr>)))
           | _ \<Rightarrow> (Response 400 False ''Name and color are required'' None, d)))"

definition deleteCategory ::
  "(string \<Rightarrow> bool) \<Rightarrow> string option \<Rightarrow> string \<Rightarrow> db \<Rightarrow> unit response \<times> db" where
  "deleteCategory isValid userId i d =
    (case truthy userId of
       None \<Rightarrow> (Response 401 False ''User not authenticated'' None, d)
     | Some uid \<Rightarrow>
        if \<not> isValid i then (Response 400 False ''Invalid category ID'' None, d)
        else
          (case Category_findOne i uid (categories d) of
             None \<Rightarrow> (Response 404 False ''Category not found'' None, d)
           | Some c \<Rightarrow>
               (Response 200 True ''Category deleted successfully'' None,
                d\<lparr>categories := Category_findByIdAndDelete i (categories d)\<rparr>)))"

subsection \<open>Expense collection\<close>

text \<open>\<^verbatim>\<open>Expense.findOne({ _id: id, userId })\<close>\<close>

definition Expense_findOne :: "string \<Rightarrow> string \<Rightarrow> expense list \<Rightarrow> expense option" where
  "Expense_findOne i userId es = find (\<lambda>e. e_id e = i \<and> e_userId e = userId) es"

text \<open>\<^verbatim>\<open>Expense.findByIdAndDelete(id)\<close>\<close>

definition Expense_findByIdAndDelete :: "string \<Rightarrow> expense list \<Rightarrow> expense list" where
  "Expense_findByIdAndDelete i es = filter (\<lambda>e. e_id e \<noteq> i) es"

text \<open>
  \<^verbatim>\<open>expense.save()\<close> of a document read from the collection: the validators of
  \<^verbatim>\<open>ExpenseSchema\<close> (amount at least 0.01, description required and at most 200 long,
  categoryId and userId required), then the write under the \<^verbatim>\<open>_id\<close>.
\<close>

definition Expense_validate :: "expense \<Rightarrow> bool" where
  "Expense_validate e =
     (1 / 100 \<le> e_amount e \<and> e_description e \<noteq> [] \<and> length (e_description e) \<le> 200
      \<and> e_categoryId e \<noteq> [] \<and> e_userId e \<noteq> [])"

definition Expense_update :: "expense \<Rightarrow> expense list \<Rightarrow> expense list" where
  "Expense_update e es = map (\<lambda>x. if e_id x = e_id e then e else x) es"

text \<open>
  \<^verbatim>\<open>populate('categoryId', 'name color icon')\<close>: the category with that \<^verbatim>\<open>_id\<close>, of
  whichever owner, or \<^verbatim>\<open>null\<close> when there is none.
\<close>

definition populate :: "string \<Rightarrow> category list \<Rightarrow> category option" where
  "populate categoryId cats = find (\<lambda>c. c_id c = categoryId) cats"

subsection \<open>expenseController: getExpenseById, updateExpense, deleteExpense\<close>

record category_ref =
  cr_id :: string
  cr_name :: string
  cr_color :: string
  cr_createdAt :: instant
  cr_updatedAt :: instant

record expense_data =
  ed_id :: string
  ed_title :: string
  ed_amount :: real
  ed_categoryId :: string
  ed_category :: category_ref
  ed_date :: instant
  ed_description :: string
  ed_photoUrl :: "string option"
  ed_userId :: string
  ed_createdAt :: instant
  ed_updatedAt :: instant

text \<open>
  The \<^verbatim>\<open>category\<close> object of a transformed expense. The populated document holds only
  \<^verbatim>\<open>_id\<close>, name, color and icon, so both timestamps fall back to
  \<^verbatim>\<open>new Date().toISOString()\<close>, and an empty color to \<^verbatim>\<open>'#10B981'\<close>.
\<close>

definition transformPopulated :: "instant \<Rightarrow> category \<Rightarrow> category_ref" where
  "transformPopulated now c =
     \<lparr>cr_id = c_id c, cr_name = c_name c,
      cr_color = (if c_color c = [] then ''#10B981'' else c_color c),
      cr_createdAt = now, cr_updatedAt = now\<rparr>"

text \<open>The \<^verbatim>\<open>transformedExpense\<close> literal of the three handlers.\<close>

definition transformExpense :: "instant \<Rightarrow> expense \<Rightarrow> category \<Rightarrow> expense_data" where
  "transformExpense now e c =
     \<lparr>ed_id = e_id e, ed_title = e_description e, ed_amount = e_amount e, ed_categoryId = c_id c,
      ed_category = transformPopulated now c, ed_date = e_date e, ed_description = [],
      ed_photoUrl = e_receiptUrl e, ed_userId = e_userId e, ed_createdAt = e_createdAt e,
      ed_updatedAt = e_updatedAt e\<rparr>"

definition getExpenseById ::
  "(string \<Rightarrow> bool) \<Rightarrow> instant \<Rightarrow> string option \<Rightarrow> string \<Rightarrow> db \<Rightarrow> expense_data response \<times> db" where
  "getExpenseById isValid now userId i d =
    (case truthy userId of
       None \<Rightarrow> (Response 401 False ''User not authenticated'' None, d)
     | Some uid \<Rightarrow>
        if \<not> isValid i then (Response 400 False ''Invalid expense ID'' None, d)
        else
          (case Expense_findOne i uid (expenses d) of
             None \<Rightarrow> (Response 404 False ''Expense not found'' None, d)
           | Some e \<Rightarrow>
               (case populate (e_categoryId e) (categories d) of
                  None \<Rightarrow> (Response 500 False ''Failed to populate category information'' None, d)
                | Some c \<Rightarrow> (Response 200 True [] (Some (transformExpense now e c)), d))))"

text \<open>
  The amount and category steps of \<open>updateExpense\<close>: \<open>Inl\<close> is the response of an early
  return, \<open>Inr\<close> the document as modified so far. \<open>parseFloat\<close> is the JavaScript
  function, \<open>None\<close> for \<^verbatim>\<open>NaN\<close>.
\<close>

definition updateExpense_amount ::
  "(string \<Rightarrow> real option) \<Rightarrow> string option \<Rightarrow> expense \<Rightarrow> expense_data response + expense" where
  "updateExpense_amount parseFloat body_amount e =
     (case body_amount of
        None \<Rightarrow> Inr e
      | Some a \<Rightarrow>
          (case parseFloat a of
             None \<Rightarrow> Inl (Response 400 False ''Amount must be a positive number'' None)
           | Some amountNum \<Rightarrow>
               if amountNum \<le> 0 then Inl (Response 400 False ''Amount must be a positive number'' None)
               else Inr (e\<lparr>e_amount := amountNum\<rparr>)))"

definition updateExpense_category ::
  "(string \<Rightarrow> bool) \<Rightarrow> string \<Rightarrow> string option \<Rightarrow> category list \<Rightarrow> expense
     \<Rightarrow> expense_data response + expense" where
  "updateExpense_category isValid uid body_categoryId cats e =
     (case body_categoryId of
        None \<Rightarrow> Inr e
      | Some categoryId \<Rightarrow>
          if \<not> isValid categoryId then Inl (Response 400 False ''Invalid category ID'' None)
          else
            (case Category_findOne categoryId uid cats of
               None \<Rightarrow> Inl (Response 404 False ''Category not found'' None)
             | Some c \<Rightarrow> Inr (e\<lparr>e_categoryId := categoryId\<rparr>)))"

text \<open>
  \<open>receipt\<close> is \<^verbatim>\<open>req.file?.filename\<close>, the file multer has already stored. \<open>parseDate\<close> is
  \<^verbatim>\<open>new Date(date).getTime()\<close>, \<open>None\<close> for an invalid date, which \<^verbatim>\<open>save()\<close> rejects.
  A rejected \<^verbatim>\<open>save()\<close> is answered with 500 by the \<^verbatim>\<open>catch\<close>; the old receipt file is
  gone by then.
\<close>

definition updateExpense ::
  "(string \<Rightarrow> bool) \<Rightarrow> (string \<Rightarrow> real option) \<Rightarrow> (string \<Rightarrow> instant option) \<Rightarrow> instant
     \<Rightarrow> string option \<Rightarrow> string \<Rightarrow> string option \<Rightarrow> string option \<Rightarrow> string option
     \<Rightarrow> string option \<Rightarrow> string option \<Rightarrow> db \<Rightarrow> expense_data response \<times> db" where
  "updateExpense isValid parseFloat parseDate now userId i body_amount body_description
       body_categoryId body_date receipt d =
    (case truthy userId of
       None \<Rightarrow> (Response 401 False ''User not authenticated'' None, d)
     | Some uid \<Rightarrow>
        if \<not> isValid i then (Response 400 False ''Invalid expense ID'' None, d)
        else
          (case Expense_findOne i uid (expenses d) of
             None \<Rightarrow> (Response 404 False ''Expense not found'' None, d)
           | Some e \<Rightarrow>
               (case updateExpense_amount parseFloat body_amount e of
                  Inl r \<Rightarrow> (r, d)
                | Inr e1 \<Rightarrow>
                    (case updateExpense_category isValid uid body_categoryId (categories d) e1 of
                       Inl r \<Rightarrow> (r, d)
                     | Inr e2 \<Rightarrow>
                         let e3 = (case body_description of
                                     None \<Rightarrow> e2 | Some s \<Rightarrow> e2\<lparr>e_description := trim s\<rparr>);
                             date' = (case body_date of
                                        None \<Rightarrow> Some (e_date e3) | Some s \<Rightarrow> parseDate s);
                             d1 = (case receipt of
                                     None \<Rightarrow> d
                                   | Some filename \<Rightarrow>
                                       d\<lparr>uploads := unlinkReceipt (e_receiptUrl e3) (uploads d)\<rparr>);
                             e4 = (case receipt of
                                     None \<Rightarrow> e3
                                   | Some filename \<Rightarrow>
                                       e3\<lparr>e_receiptUrl := Some (''/uploads/'' @ filename)\<rparr>)
                         in (case date' of
                               None \<Rightarrow> (Response 500 False ''Internal server error'' None, d1)
                             | Some dt \<Rightarrow>
                                 let e5 = e4\<lparr>e_date := dt, e_updatedAt := now\<rparr> in
                                 if \<not> Expense_validate e5 then
                                   (Response 500 False ''Internal server error'' None, d1)
                                 else
                                   let d2 = d1\<lparr>expenses := Expense_update e5 (expenses d1)\<rparr> in
                                   (case populate (e_categoryId e5) (categories d2) of
                                      None \<Rightarrow>
                                        (Response 500 False
                                           ''Failed to populate category information'' None, d2)
                                    | Some c \<Rightarrow>
                                        (Response 200 True ''Expense updated successfully''
                                           (Some (transformExpense now e5 c)), d2)))))))"

definition deleteExpense ::
  "(string \<Rightarrow> bool) \<Rightarrow> string option \<Rightarrow> string \<Rightarrow> db \<Rightarrow> unit response \<times> db" where
  "deleteExpense isValid userId i d =
    (case truthy userId of
       None \<Rightarrow> (Response 401 False ''User not authenticated'' None, d)
     | Some uid \<Rightarrow>
        if \<not> isValid i then (Response 400 False ''Invalid expense ID'' None, d)
        else
          (case Expense_findOne i uid (expenses d) of
             None \<Rightarrow> (Response 404 False ''Expense not found'' None, d)
           | Some e \<Rightarrow>
               (Response 200 True ''Expense deleted successfully'' None,
                d\<lparr>uploads := unlinkReceipt (e_receiptUrl e) (uploads d),
                  expenses := Expense_findByIdAndDelete i (expenses d)\<rparr>)))"

subsection \<open>Aggregation pipelines\<close>

text \<open>
  The values an equality condition of a \<^verbatim>\<open>$match\<close> stage compares. Mongoose does not cast
  the stages of an \<^verbatim>\<open>aggregate\<close> pipeline to the schema, so the condition reaches MongoDB
  with the value the controller wrote, and there a string and an ObjectId are never
  equal. \<open>e_userId\<close> is stored as a string (\<^verbatim>\<open>ExpenseSchema.userId\<close> has type String).
\<close>

datatype bson = BString string | BObjectId string

definition matchUserId :: "bson \<Rightarrow> expense \<Rightarrow> bool" where
  "matchUserId q e = (BString (e_userId e) = q)"

text \<open>\<^verbatim>\<open>date: { $gte: lo, $lte: hi }\<close>\<close>

definition matchDate :: "instant \<Rightarrow> instant \<Rightarrow> expense \<Rightarrow> bool" where
  "matchDate lo hi e = (lo \<le> e_date e \<and> e_date e \<le> hi)"

text \<open>
  \<^verbatim>\<open>{ $group: { _id: null, total: { $sum: '$amount' }, count: { $sum: 1 } } }\<close>: one
  result document, or none when no document reaches the stage.
\<close>

definition group_null :: "(real list \<Rightarrow> real) \<Rightarrow> expense list \<Rightarrow> (real \<times> nat) list" where
  "group_null dsum es = (if es = [] then [] else [(dsum (map e_amount es), length es)])"

text \<open>
  \<^verbatim>\<open>$lookup\<close> from \<^verbatim>\<open>categories\<close> on \<^verbatim>\<open>categoryId = _id\<close> followed by \<^verbatim>\<open>$unwind\<close>: one row for
  each expense and each category with that id; an expense without such a category
  yields no row.
\<close>

definition lookup_unwind :: "category list \<Rightarrow> expense list \<Rightarrow> (expense \<times> category) list" where
  "lookup_unwind cats es =
     concat (map (\<lambda>e. map (\<lambda>c. (e, c)) (filter (\<lambda>c. c_id c = e_categoryId e) cats)) es)"

text \<open>
  \<^verbatim>\<open>$group\<close> on a key: for each key its first row and the later rows with the same key.
  MongoDB leaves the order of the groups open; here it is the order of first
  appearance, and the \<^verbatim>\<open>$sort\<close> stages that follow are stable sorts.
\<close>

function group_rows :: "('r \<Rightarrow> 'k) \<Rightarrow> 'r list \<Rightarrow> ('k \<times> 'r \<times> 'r list) list" where
  "group_rows key [] = []"
| "group_rows key (r # rs) =
     (key r, r, filter (\<lambda>x. key x = key r) rs) # group_rows key (filter (\<lambda>x. key x \<noteq> key r) rs)"
  by pat_completeness auto
termination
  by (relation "measure (\<lambda>(key, rs). length rs)") (auto simp: less_Suc_eq_le)

record category_group =
  cg_id :: string
  cg_category :: category
  cg_totalAmount :: real
  cg_count :: nat

text \<open>
  \<^verbatim>\<open>{ $group: { _id: '$categoryId', category: { $first: '$category' }, totalAmount:
  { $sum: '$amount' }, transactionCount: { $sum: 1 } } }, { $sort: { totalAmount: -1 } }\<close>
\<close>

definition group_by_category ::
  "(real list \<Rightarrow> real) \<Rightarrow> (expense \<times> category) list \<Rightarrow> category_group list" where
  "group_by_category dsum rows =
     sort_key (\<lambda>g. - cg_totalAmount g)
       (map (\<lambda>(k, r, rs).
               \<lparr>cg_id = k, cg_category = snd r,
                cg_totalAmount = dsum (map (\<lambda>x. e_amount (fst x)) (r # rs)),
                cg_count = length (r # rs)\<rparr>)
            (group_rows (\<lambda>x. e_categoryId (fst x)) rows))"

subsection \<open>expenseController: getExpenseSummary\<close>

text \<open>\<^verbatim>\<open>Math.round\<close> of a finite number: the nearest integer, a tie going up.\<close>

definition Math_round :: "real \<Rightarrow> int" where
  "Math_round x = \<lfloor>x + 1 / 2\<rfloor>"

record breakdown_item =
  bi_category :: category_ref
  bi_totalAmount :: real
  bi_transactionCount :: nat
  bi_percentage :: "int option"

record recent_data =
  rd_id :: string
  rd_title :: string
  rd_amount :: real
  rd_categoryId :: string
  rd_category :: category_ref
  rd_date :: instant
  rd_userId :: string
  rd_createdAt :: instant
  rd_updatedAt :: instant

record summary_data =
  sm_totalExpenses :: real
  sm_monthlyExpenses :: real
  sm_categoryBreakdown :: "breakdown_item list"
  sm_recentTransactions :: "recent_data list"

text \<open>
  \<^verbatim>\<open>Expense.find({ userId }).populate(...).sort({ date: -1, createdAt: -1 }).limit(5)\<close>,
  before the population.
\<close>

definition recentTransactions :: "string \<Rightarrow> expense list \<Rightarrow> expense list" where
  "recentTransactions uid es =
     take 5 (sort_key (\<lambda>e. (- e_date e, - e_createdAt e)) (filter (\<lambda>e. e_userId e = uid) es))"

text \<open>
  The callback of \<^verbatim>\<open>recentTransactions.map\<close>: \<^verbatim>\<open>null\<close> when the category was not
  populated, the formatted expense otherwise.
\<close>

definition formatRecent :: "instant \<Rightarrow> category list \<Rightarrow> expense \<Rightarrow> recent_data option" where
  "formatRecent now cats e =
     (case populate (e_categoryId e) cats of
        None \<Rightarrow> None
      | Some c \<Rightarrow>
          Some \<lparr>rd_id = e_id e, rd_title = e_description e, rd_amount = e_amount e,
                rd_categoryId = c_id c, rd_category = transformPopulated now c, rd_date = e_date e,
                rd_userId = e_userId e, rd_createdAt = e_createdAt e, rd_updatedAt = e_updatedAt e\<rparr>)"

text \<open>
  The callback of \<^verbatim>\<open>categoryBreakdown.map\<close>. The percentage is
  \<^verbatim>\<open>monthlyExpenses > 0 ? Math.round((item.totalAmount / monthlyExpenses) * 100) : 0\<close>,
  quotient and product being double operations; \<open>None\<close> is a percentage that is not
  finite, which JSON prints as \<^verbatim>\<open>null\<close>.
\<close>

definition withPercentage :: "real \<Rightarrow> category_group \<Rightarrow> breakdown_item" where
  "withPercentage monthlyExpenses item =
     \<lparr>bi_category =
        \<lparr>cr_id = cg_id item, cr_name = c_name (cg_category item),
         cr_color = c_color (cg_category item), cr_createdAt = c_createdAt (cg_category item),
         cr_updatedAt = c_updatedAt (cg_category item)\<rparr>,
      bi_totalAmount = cg_totalAmount item,
      bi_transactionCount = cg_count item,
      bi_percentage =
        (if monthlyExpenses > 0 then
           map_option Math_round (js_mul (js_div (cg_totalAmount item) monthlyExpenses) 100)
         else Some 0)\<rparr>"

text \<open>
  \<open>startOfMonth now\<close> and \<open>endOfMonth now\<close> are
  \<^verbatim>\<open>new Date(now.getFullYear(), now.getMonth(), 1)\<close> and
  \<^verbatim>\<open>new Date(now.getFullYear(), now.getMonth() + 1, 0, 23, 59, 59, 999)\<close> in the server's
  time zone.
\<close>

definition getExpenseSummary ::
  "(real list \<Rightarrow> real) \<Rightarrow> (instant \<Rightarrow> instant) \<Rightarrow> (instant \<Rightarrow> instant) \<Rightarrow> instant
     \<Rightarrow> string option \<Rightarrow> db \<Rightarrow> summary_data response \<times> db" where
  "getExpenseSummary dsum startOfMonth endOfMonth now userId d =
    (case truthy userId of
       None \<Rightarrow> (Response 401 False ''User not authenticated'' None, d)
     | Some uid \<Rightarrow>
        let totalExpensesResult =
              group_null dsum (filter (matchUserId (BString uid)) (expenses d));
            monthlyExpensesResult =
              group_null dsum (filter (\<lambda>e. matchUserId (BString uid) e
                                     \<and> matchDate (startOfMonth now) (endOfMonth now) e) (expenses d));
            categoryBreakdown =
              group_by_category dsum
                (lookup_unwind (categories d)
                   (filter (\<lambda>e. matchUserId (BString uid) e
                              \<and> matchDate (startOfMonth now) (endOfMonth now) e) (expenses d)));
            recent = recentTransactions uid (expenses d);
            totalExpenses = (case totalExpensesResult of [] \<Rightarrow> 0 | x # _ \<Rightarrow> fst x);
            monthlyExpenses = (case monthlyExpensesResult of [] \<Rightarrow> 0 | x # _ \<Rightarrow> fst x)
        in (Response 200 True []
              (Some \<lparr>sm_totalExpenses = totalExpenses, sm_monthlyExpenses = monthlyExpenses,
                     sm_categoryBreakdown = map (withPercentage monthlyExpenses) categoryBreakdown,
                     sm_recentTransactions = List.map_filter (formatRecent now (categories d)) recent\<rparr>),
            d))"

subsection \<open>expenseController: getExpenseStats\<close>

record stats_category =
  sc_id :: string
  sc_name :: string
  sc_color :: string
  sc_icon :: "string option"
  sc_total :: real
  sc_count :: nat

record stats_data =
  st_totalAmount :: real
  st_totalCount :: nat
  st_averagePerDay :: "real option"
  st_expensesByCategory :: "stats_category list"
  st_dailyExpenses :: "(string \<times> real \<times> nat) list"
  st_period :: string
  st_startDate :: instant
  st_endDate :: instant

text \<open>
  \<^verbatim>\<open>{ $group: { _id: { $dateToString: { format: '%Y-%m-%d', date: '$date' } }, total:
  { $sum: '$amount' }, count: { $sum: 1 } } }, { $sort: { _id: 1 } }\<close>; the sort is the
  insertion sort under the order of strings by character code.
\<close>

fun string_le :: "string \<Rightarrow> string \<Rightarrow> bool" where
  "string_le [] t = True"
| "string_le (a # s) [] = False"
| "string_le (a # s) (b # t) = ((of_char a :: nat) < of_char b \<or> (a = b \<and> string_le s t))"

fun insert_day :: "string \<times> real \<times> nat \<Rightarrow> (string \<times> real \<times> nat) list \<Rightarrow> (string \<times> real \<times> nat) list" where
  "insert_day x [] = [x]"
| "insert_day x (y # ys) = (if string_le (fst x) (fst y) then x # y # ys else y # insert_day x ys)"

definition group_by_day ::
  "(real list \<Rightarrow> real) \<Rightarrow> (instant \<Rightarrow> string) \<Rightarrow> expense list \<Rightarrow> (string \<times> real \<times> nat) list" where
  "group_by_day dsum dateToString es =
     foldr insert_day
       (map (\<lambda>(k, r, rs). (k, dsum (map e_amount (r # rs)), length (r # rs)))
            (group_rows (\<lambda>e. dateToString (e_date e)) es)) []"

text \<open>
  \<open>period\<close> is \<^verbatim>\<open>req.query.period\<close>. \<open>startOfYear now\<close> is
  \<^verbatim>\<open>new Date(now.getFullYear(), 0, 1)\<close>; \<open>dateToString\<close> is the \<^verbatim>\<open>$dateToString\<close> of
  MongoDB. The three \<^verbatim>\<open>$match\<close> stages compare \<^verbatim>\<open>userId\<close> with
  \<^verbatim>\<open>new mongoose.Types.ObjectId(userId)\<close>, whose constructor throws on a string that is
  no ObjectId (answered with 500 by the \<^verbatim>\<open>catch\<close>). The number of days is the ceiling of
  a double quotient, finite because dates are bounded; the average is a double quotient.
\<close>

definition getExpenseStats ::
  "(real list \<Rightarrow> real) \<Rightarrow> (string \<Rightarrow> bool) \<Rightarrow> (instant \<Rightarrow> instant) \<Rightarrow> (instant \<Rightarrow> instant)
     \<Rightarrow> (instant \<Rightarrow> string) \<Rightarrow> instant \<Rightarrow> string option \<Rightarrow> string option \<Rightarrow> db
     \<Rightarrow> stats_data response \<times> db" where
  "getExpenseStats dsum isValid startOfMonth startOfYear dateToString now userId period d =
    (case truthy userId of
       None \<Rightarrow> (Response 401 False ''User not authenticated'' None, d)
     | Some uid \<Rightarrow>
        let startDate =
              (if period = Some ''week'' then now - 7 * 24 * 60 * 60 * 1000
               else if period = Some ''year'' then startOfYear now
               else startOfMonth now)
        in if \<not> isValid uid then (Response 500 False ''Internal server error'' None, d)
           else
             let matched = filter (\<lambda>e. matchUserId (BObjectId uid) e \<and> matchDate startDate now e)
                             (expenses d);
                 totalExpenses = group_null dsum matched;
                 expensesByCategory =
                   map (\<lambda>g. \<lparr>sc_id = cg_id g, sc_name = c_name (cg_category g),
                              sc_color = c_color (cg_category g), sc_icon = c_icon (cg_category g),
                              sc_total = cg_totalAmount g, sc_count = cg_count g\<rparr>)
                       (group_by_category dsum (lookup_unwind (categories d) matched));
                 dailyExpenses = group_by_day dsum dateToString matched;
                 totalAmount = (case totalExpenses of [] \<Rightarrow> 0 | x # _ \<Rightarrow> fst x);
                 totalCount = (case totalExpenses of [] \<Rightarrow> 0 | x # _ \<Rightarrow> snd x);
                 daysDiff =
                   \<lceil>roundToDouble (real_of_int (now - startDate) / (1000 * 60 * 60 * 24))\<rceil>
             in (Response 200 True []
                   (Some \<lparr>st_totalAmount = totalAmount, st_totalCount = totalCount,
                          st_averagePerDay =
                            (if daysDiff > 0 then js_div totalAmount (real_of_int daysDiff)
                             else Some 0),
                          st_expensesByCategory = expensesByCategory,
                          st_dailyExpenses = dailyExpenses,
                          st_period = (case period of None \<Rightarrow> ''month'' | Some p \<Rightarrow> p),
                          st_startDate = startDate, st_endDate = now\<rparr>),
                 d))"

subsection \<open>Stores without a record\<close>

text \<open>The store in which a given category, or a given expense, does not exist.\<close>

definition withoutCategory :: "category \<Rightarrow> db \<Rightarrow> db" where
  "withoutCategory c d = d\<lparr>categories := filter (\<lambda>x. x \<noteq> c) (categories d)\<rparr>"

definition withoutExpense :: "expense \<Rightarrow> db \<Rightarrow> db" where
  "withoutExpense e d = d\<lparr>expenses := filter (\<lambda>x. x \<noteq> e) (expenses d)\<rparr>"

subsection \<open>A concrete scenario\<close>

text \<open>
  A code \<open>''482913''\<close> issued at time 0 for \<open>''+15550001111''\<close>, hence expiring at 600000
  ms, for a user who is not verified yet and owns nothing.
\<close>

definition example_sign :: "string \<Rightarrow> string" where
  "example_sign userId = ''jwt.'' @ userId"

definition example_oid :: "nat \<Rightarrow> string" where
  "example_oid k = ''65a1b2c3d4e5f6a7b8c9d0e'' @ [digit k]"

definition example_user :: user where
  "example_user =
     \<lparr>u_id = ''507f1f77bcf86cd799439011'', u_phoneNumber = ''+15550001111'',
      u_otp = Some ''482913'', u_otpExpires = Some 600000, u_isVerified = False,
      u_createdAt = 0, u_updatedAt = 0\<rparr>"

definition example_db :: db where
  "example_db = \<lparr>users = [example_user], categories = [], expenses = [], uploads = []\<rparr>"

definition empty_db :: db where
  "empty_db = \<lparr>users = [], categories = [], expenses = [], uploads = []\<rparr>"

text \<open>
  Two users: B, the \<open>example_user\<close>, owns a category and an expense; A owns nothing.
  Ids are strings of 24 hex digits, tokens are \<open>example_sign\<close> of the user id.
\<close>

definition example_isValid :: "string \<Rightarrow> bool" where
  "example_isValid i = (length i = 24 \<and> list_all isHex i)"

definition example_verify :: "string \<Rightarrow> string \<Rightarrow> jwt_error + JWTPayload" where
  "example_verify token secret =
     (if secret = ''s3cret'' \<and> take 4 token = ''jwt.'' then
        Inr \<lparr>jp_userId = drop 4 token, jp_iat = 0, jp_exp = 2592000\<rparr>
      else Inl JsonWebTokenError)"

definition user_A :: string where
  "user_A = ''507f191e810c19729de860ea''"

definition user_B :: string where
  "user_B = ''507f1f77bcf86cd799439011''"

definition example_category :: category where
  "example_category =
     \<lparr>c_id = ''65a1b2c3d4e5f6a7b8c9d0e1'', c_name = ''Food'', c_color = ''#10B981'', c_icon = None,
      c_userId = user_B, c_createdAt = 0, c_updatedAt = 0\<rparr>"

definition example_expense :: expense where
  "example_expense =
     \<lparr>e_id = ''75a1b2c3d4e5f6a7b8c9d0e1'', e_amount = 10, e_description = ''Lunch'',
      e_categoryId = ''65a1b2c3d4e5f6a7b8c9d0e1'', e_date = 5000, e_receiptUrl = None,
      e_userId = user_B, e_createdAt = 5000, e_updatedAt = 5000\<rparr>"

definition ledger_db :: db where
  "ledger_db =
     \<lparr>users = [example_user\<lparr>u_otp := None, u_otpExpires := None, u_isVerified := True\<rparr>],
      categories = [example_category], expenses = [example_expense], uploads = []\<rparr>"

text \<open>
  The ledger of B for the aggregations: two categories, and four expenses created on
  their dates, the last of which refers to a category that does not exist. The month
  runs from 0 to 2678399999.
\<close>

definition mk_expense :: "string \<Rightarrow> real \<Rightarrow> string \<Rightarrow> instant \<Rightarrow> expense" where
  "mk_expense i a c t =
     \<lparr>e_id = i, e_amount = a, e_description = ''Item'', e_categoryId = c, e_date = t,
      e_receiptUrl = None, e_userId = user_B, e_createdAt = t, e_updatedAt = t\<rparr>"

definition summary_db :: db where
  "summary_db =
     \<lparr>users = users ledger_db,
      categories =
        [example_category,
         example_category\<lparr>c_id := ''65a1b2c3d4e5f6a7b8c9d0e2'', c_name := ''Travel'',
                          c_color := ''#3B82F6''\<rparr>],
      expenses =
        [mk_expense ''75a1b2c3d4e5f6a7b8c9d0e1'' 25 ''65a1b2c3d4e5f6a7b8c9d0e1'' 1000,
         mk_expense ''75a1b2c3d4e5f6a7b8c9d0e2'' 75 ''65a1b2c3d4e5f6a7b8c9d0e2'' 3000,
         mk_expense ''75a1b2c3d4e5f6a7b8c9d0e3'' 100 ''65a1b2c3d4e5f6a7b8c9d0e1'' 2000,
         mk_expense ''75a1b2c3d4e5f6a7b8c9d0e4'' 40 ''65a1b2c3d4e5f6a7b8c9d0ff'' 4000],
      uploads = []\<rparr>"


section \<open>Properties\<close>

subsection \<open>Rounding to doubles\<close>

declare expo_up.simps [simp del] expo_down.simps [simp del] strip.simps [simp del]

lemma roundTiesToEven_error: "\<bar>of_int (roundTiesToEven y) - y\<bar> \<le> 1 / 2"
  unfolding roundTiesToEven_def Let_def by (auto; linarith)

lemma roundTiesToEven_le: "y < of_int n + 1 / 2 \<Longrightarrow> roundTiesToEven y \<le> n"
  unfolding roundTiesToEven_def Let_def by (auto; linarith)

lemma roundTiesToEven_ge: "of_int n - 1 / 2 < y \<Longrightarrow> n \<le> roundTiesToEven y"
  unfolding roundTiesToEven_def Let_def by (auto; linarith)

lemma pow2_less_iff: "(2::real) powi m < 2 powi n \<longleftrightarrow> m < n"
proof
  assume "(2::real) powi m < 2 powi n"
  show "m < n"
  proof (rule ccontr)
    assume "\<not> m < n"
    then have "(2::real) powi n \<le> 2 powi m" by (intro power_int_increasing) simp_all
    with \<open>(2::real) powi m < 2 powi n\<close> show False by simp
  qed
next
  assume "m < n"
  then show "(2::real) powi m < 2 powi n" by (intro power_int_strict_increasing) simp_all
qed

lemma pow2_le_iff: "(2::real) powi m \<le> 2 powi n \<longleftrightarrow> m \<le> n"
  using pow2_less_iff [of n m] by (simp add: not_less [symmetric])

lemma pow2_double: "(2::real) powi (n + 1) = 2 powi n * 2"
  by (rule power_int_add_1) simp

lemma expo_up_le: "x < 2 powi (E + 1 - e) \<Longrightarrow> e \<le> E \<Longrightarrow> expo_up x e \<le> E"
proof (induction x e rule: expo_up.induct)
  case (1 x e)
  show ?case
  proof (cases "2 \<le> x \<and> e < 1024")
    case True
    with "1.prems" have "(2::real) powi 1 < 2 powi (E + 1 - e)" by simp
    then have lt: "e < E" by (simp only: pow2_less_iff)
    have "(2::real) powi (E + 1 - e) = 2 powi (E + 1 - (e + 1)) * 2"
      using pow2_double [of "E + 1 - (e + 1)"] by (simp add: algebra_simps)
    with "1.prems" have "x / 2 < 2 powi (E + 1 - (e + 1))" by simp
    from "1.IH" [OF True this] lt True show ?thesis by (subst expo_up.simps) auto
  next
    case False
    with "1.prems" show ?thesis by (subst expo_up.simps) auto
  qed
qed

lemma expo_up_ge: "2 powi (E - e) \<le> x \<Longrightarrow> E \<le> 1024 \<Longrightarrow> E \<le> expo_up x e"
proof (induction x e rule: expo_up.induct)
  case (1 x e)
  show ?case
  proof (cases "2 \<le> x \<and> e < 1024")
    case True
    have "(2::real) powi (E - e) = 2 powi (E - (e + 1)) * 2"
      using pow2_double [of "E - (e + 1)"] by (simp add: algebra_simps)
    with "1.prems" have "2 powi (E - (e + 1)) \<le> x / 2" by simp
    from "1.IH" [OF True this "1.prems"(2)] True show ?thesis by (subst expo_up.simps) auto
  next
    case False
    show ?thesis
    proof (cases "x < 2")
      case True
      with "1.prems" have "(2::real) powi (E - e) < 2 powi 1" by simp
      then have "E - e < 1" by (simp only: pow2_less_iff)
      with False show ?thesis by (subst expo_up.simps) auto
    next
      case ge: False
      with False "1.prems" show ?thesis by (subst expo_up.simps) auto
    qed
  qed
qed

lemma expo_down_le: "x < 2 powi (E + 1 - e) \<Longrightarrow> - 1022 \<le> E \<Longrightarrow> expo_down x e \<le> E"
proof (induction x e rule: expo_down.induct)
  case (1 x e)
  show ?case
  proof (cases "x < 1 \<and> - 1022 < e")
    case True
    have "(2::real) powi (E + 1 - (e - 1)) = 2 powi (E + 1 - e) * 2"
      using pow2_double [of "E + 1 - e"] by (simp add: algebra_simps)
    with "1.prems" have "x * 2 < 2 powi (E + 1 - (e - 1))" by simp
    from "1.IH" [OF True this "1.prems"(2)] True show ?thesis by (subst expo_down.simps) auto
  next
    case False
    show ?thesis
    proof (cases "x < 1")
      case True
      with False "1.prems" show ?thesis by (subst expo_down.simps) auto
    next
      case ge: False
      with "1.prems" have "(2::real) powi 0 < 2 powi (E + 1 - e)" by simp
      then have "0 < E + 1 - e" by (simp only: pow2_less_iff)
      with False show ?thesis by (subst expo_down.simps) auto
    qed
  qed
qed

lemma expo_down_ge: "2 powi (E - e) \<le> x \<Longrightarrow> E \<le> e \<Longrightarrow> E \<le> expo_down x e"
proof (induction x e rule: expo_down.induct)
  case (1 x e)
  show ?case
  proof (cases "x < 1 \<and> - 1022 < e")
    case True
    with "1.prems" have "(2::real) powi (E - e) < 2 powi 0" by simp
    then have lt: "E \<le> e - 1" by (simp only: pow2_less_iff)
    have "(2::real) powi (E - (e - 1)) = 2 powi (E - e) * 2"
      using pow2_double [of "E - e"] by (simp add: algebra_simps)
    with "1.prems" have "2 powi (E - (e - 1)) \<le> x * 2" by simp
    from "1.IH" [OF True this lt] True show ?thesis by (subst expo_down.simps) auto
  next
    case False
    with "1.prems" show ?thesis by (subst expo_down.simps) auto
  qed
qed

lemma binade_le: "\<bar>x\<bar> < 2 powi (E + 1) \<Longrightarrow> - 1022 \<le> E \<Longrightarrow> binade x \<le> E"
proof (cases "1 \<le> \<bar>x\<bar>")
  case True
  assume a: "\<bar>x\<bar> < 2 powi (E + 1)" "- 1022 \<le> E"
  with True have "(2::real) powi 0 < 2 powi (E + 1)" by simp
  then have "0 \<le> E" by (simp only: pow2_less_iff)
  with a True show ?thesis using expo_up_le [of "\<bar>x\<bar>" E 0] by (simp add: binade_def)
next
  case False
  assume a: "\<bar>x\<bar> < 2 powi (E + 1)" "- 1022 \<le> E"
  with False show ?thesis using expo_down_le [of "\<bar>x\<bar>" E 0] by (simp add: binade_def)
qed

lemma binade_ge: "2 powi E \<le> \<bar>x\<bar> \<Longrightarrow> E \<le> 1024 \<Longrightarrow> E \<le> binade x"
proof (cases "1 \<le> \<bar>x\<bar>")
  case True
  assume a: "2 powi E \<le> \<bar>x\<bar>" "E \<le> 1024"
  with True show ?thesis using expo_up_ge [of E 0 "\<bar>x\<bar>"] by (simp add: binade_def)
next
  case False
  assume a: "2 powi E \<le> \<bar>x\<bar>" "E \<le> 1024"
  with False have "(2::real) powi E < 2 powi 0" by simp
  then have "E \<le> 0" by (simp only: pow2_less_iff)
  with a False show ?thesis using expo_down_ge [of E 0 "\<bar>x\<bar>"] by (simp add: binade_def)
qed

lemma ulp_pos: "0 < ulp x"
  by (simp add: ulp_def)

lemma ulp_le: "\<bar>x\<bar> < 2 powi (E + 1) \<Longrightarrow> - 1022 \<le> E \<Longrightarrow> ulp x \<le> 2 powi (E - 52)"
  using binade_le [of x E] by (simp add: ulp_def pow2_le_iff)

lemma ulp_ge: "2 powi E \<le> \<bar>x\<bar> \<Longrightarrow> E \<le> 1024 \<Longrightarrow> 2 powi (E - 52) \<le> ulp x"
  using binade_ge [of E x] by (simp add: ulp_def pow2_le_iff)

lemma on_grid:
  assumes "d = of_int k * 2 powi j" and "\<bar>x\<bar> < 2 powi (j + 53)" and "- 1074 \<le> j"
  shows "\<exists>k'. d = of_int k' * ulp x"
proof -
  from binade_le [of x "j + 52"] assms(2,3) have le: "binade x - 52 \<le> j" by (simp add: add.commute)
  define n where "n = nat (j - (binade x - 52))"
  have "(2::real) powi j = 2 powi (binade x - 52 + int n)"
    using le by (simp add: n_def)
  also have "\<dots> = 2 powi (binade x - 52) * 2 ^ n"
    by (simp add: power_int_add)
  finally have "d = of_int (k * 2 ^ n) * ulp x"
    using assms(1) by (simp add: ulp_def)
  then show ?thesis by blast
qed

lemma roundToDouble_error: "\<bar>roundToDouble x - x\<bar> \<le> ulp x / 2"
proof (cases "x = 0")
  case True
  then show ?thesis using ulp_pos [of x] by (simp add: roundToDouble_def)
next
  case False
  have "of_int (roundTiesToEven (x / ulp x)) * ulp x - x =
      (of_int (roundTiesToEven (x / ulp x)) - x / ulp x) * ulp x"
    using ulp_pos [of x] by (simp add: field_simps)
  then have "\<bar>of_int (roundTiesToEven (x / ulp x)) * ulp x - x\<bar> =
      \<bar>of_int (roundTiesToEven (x / ulp x)) - x / ulp x\<bar> * ulp x"
    using ulp_pos [of x] by (simp only: abs_mult)
  also have "\<dots> \<le> 1 / 2 * ulp x"
    using roundTiesToEven_error [of "x / ulp x"] ulp_pos [of x] by (intro mult_right_mono) simp_all
  finally show ?thesis using False by (simp add: roundToDouble_def)
qed

lemma roundToDouble_le:
  assumes "x < d + ulp x / 2" and "d = of_int k * ulp x"
  shows "roundToDouble x \<le> d"
proof -
  have u: "0 < ulp x" by (rule ulp_pos)
  from assms u have "x / ulp x < of_int k + 1 / 2" by (simp add: field_simps)
  then have k: "roundTiesToEven (x / ulp x) \<le> k" by (rule roundTiesToEven_le)
  show ?thesis
  proof (cases "x = 0")
    case True
    with \<open>x / ulp x < of_int k + 1 / 2\<close> have "0 \<le> k" by simp
    with u assms(2) True show ?thesis by (simp add: roundToDouble_def)
  next
    case False
    from k have "of_int (roundTiesToEven (x / ulp x)) * ulp x \<le> of_int k * ulp x"
      using u by (intro mult_right_mono) simp_all
    with False assms(2) show ?thesis by (simp add: roundToDouble_def)
  qed
qed

lemma roundToDouble_ge:
  assumes "d - ulp x / 2 < x" and "d = of_int k * ulp x"
  shows "d \<le> roundToDouble x"
proof -
  have u: "0 < ulp x" by (rule ulp_pos)
  from assms u have "of_int k - 1 / 2 < x / ulp x" by (simp add: field_simps)
  then have k: "k \<le> roundTiesToEven (x / ulp x)" by (rule roundTiesToEven_ge)
  show ?thesis
  proof (cases "x = 0")
    case True
    with \<open>of_int k - 1 / 2 < x / ulp x\<close> have "k \<le> 0" by simp
    with u assms(2) True show ?thesis by (simp add: roundToDouble_def mult_le_0_iff)
  next
    case False
    from k have "of_int k * ulp x \<le> of_int (roundTiesToEven (x / ulp x)) * ulp x"
      using u by (intro mult_right_mono) simp_all
    with False assms(2) show ?thesis by (simp add: roundToDouble_def)
  qed
qed

lemma roundToDouble_between:
  assumes "\<bar>x\<bar> < 2 powi (j + 53)" and "- 1074 \<le> j"
      and "lo = of_int a * 2 powi j" and "hi = of_int b * 2 powi j"
      and "lo \<le> x" and "x \<le> hi"
  shows "lo \<le> roundToDouble x \<and> roundToDouble x \<le> hi \<and> \<bar>roundToDouble x - x\<bar> \<le> 2 powi (j - 1)"
proof -
  have u: "0 < ulp x" by (rule ulp_pos)
  from on_grid [OF assms(3) assms(1,2)] obtain a' where a': "lo = of_int a' * ulp x" by blast
  from on_grid [OF assms(4) assms(1,2)] obtain b' where b': "hi = of_int b' * ulp x" by blast
  from assms(5) u have "lo - ulp x / 2 < x" by simp
  then have lo: "lo \<le> roundToDouble x" using a' by (rule roundToDouble_ge)
  from assms(6) u have "x < hi + ulp x / 2" by simp
  then have hi: "roundToDouble x \<le> hi" using b' by (rule roundToDouble_le)
  from ulp_le [of x "j + 52"] assms(1,2) have "ulp x \<le> 2 powi j" by (simp add: add.commute)
  moreover have "(2::real) powi j = 2 powi (j - 1) * 2" using pow2_double [of "j - 1"] by simp
  ultimately have "\<bar>roundToDouble x - x\<bar> \<le> 2 powi (j - 1)"
    using roundToDouble_error [of x] by simp
  with lo hi show ?thesis by simp
qed

lemma fl_Some: "\<bar>roundToDouble x\<bar> < 2 ^ 1024 \<Longrightarrow> fl x = Some (roundToDouble x)"
  by (simp add: fl_def)

lemma otp_product:
  assumes "0 \<le> r" and "r \<le> 1 - 1 / 2 ^ 53"
  shows "0 \<le> roundToDouble (r * 900000)
       \<and> roundToDouble (r * 900000) \<le> 900000 - 1 / 2 ^ 33
       \<and> \<bar>roundToDouble (r * 900000) - r * 900000\<bar> \<le> 1 / 2 ^ 34"
proof (cases "r * 900000 < 524288")
  case True
  have "0 \<le> roundToDouble (r * 900000) \<and> roundToDouble (r * 900000) \<le> 524288
      \<and> \<bar>roundToDouble (r * 900000) - r * 900000\<bar> \<le> 2 powi (- 34 - 1)"
    using True assms(1)
    by (intro roundToDouble_between [where a = 0 and b = "2 ^ 53"]) simp_all
  then show ?thesis by simp
next
  case False
  let ?x = "r * 900000"
  from assms(2) have hi: "?x \<le> 900000 - 900000 / 2 ^ 53" by simp
  then have lt: "\<bar>?x\<bar> < 2 powi (19 + 1)" using assms(1) by simp
  from False have ge: "2 powi 19 \<le> \<bar>?x\<bar>" by simp
  from ulp_le [OF lt] ulp_ge [OF ge] have u: "ulp ?x = 1 / 2 ^ 33" by simp
  have "0 \<le> roundToDouble ?x \<and> roundToDouble ?x \<le> 900000
      \<and> \<bar>roundToDouble ?x - ?x\<bar> \<le> 2 powi (- 33 - 1)"
    using hi assms(1)
    by (intro roundToDouble_between [where a = 0 and b = "900000 * 2 ^ 33"]) simp_all
  moreover have "roundToDouble ?x \<le> 900000 - 1 / 2 ^ 33"
    using hi by (intro roundToDouble_le [where k = "900000 * 2 ^ 33 - 1"]) (simp_all add: u)
  ultimately show ?thesis by simp
qed

lemma otp_sum:
  assumes "0 \<le> p" and "p \<le> 900000 - 1 / 2 ^ 33"
  shows "100000 \<le> roundToDouble (100000 + p)
       \<and> roundToDouble (100000 + p) \<le> 1000000 - 1 / 2 ^ 33
       \<and> \<bar>roundToDouble (100000 + p) - (100000 + p)\<bar> \<le> 1 / 2 ^ 34"
proof -
  have "100000 \<le> roundToDouble (100000 + p)
       \<and> roundToDouble (100000 + p) \<le> 1000000 - 1 / 2 ^ 33
       \<and> \<bar>roundToDouble (100000 + p) - (100000 + p)\<bar> \<le> 2 powi (- 33 - 1)"
    using assms
    by (intro roundToDouble_between [where a = "100000 * 2 ^ 33" and b = "1000000 * 2 ^ 33 - 1"])
       simp_all
  then show ?thesis by simp
qed

lemma abs_chain:
  fixes a b c k e :: real
  shows "\<bar>a - b\<bar> \<le> e \<Longrightarrow> \<bar>c - (k + a)\<bar> \<le> e \<Longrightarrow> \<bar>c - (k + b)\<bar> \<le> 2 * e"
  by linarith

lemma otpNumber_computed:
  assumes "0 \<le> r" and "r \<le> 1 - 1 / 2 ^ 53"
  shows "\<exists>s. otpNumber r = Some \<lfloor>s\<rfloor> \<and> 100000 \<le> s \<and> s \<le> 1000000 - 1 / 2 ^ 33
           \<and> \<bar>s - (100000 + r * 900000)\<bar> \<le> 1 / 2 ^ 33"
proof -
  let ?p = "roundToDouble (r * 900000)"
  let ?s = "roundToDouble (100000 + ?p)"
  from otp_product [OF assms] have p: "0 \<le> ?p" "?p \<le> 900000 - 1 / 2 ^ 33"
    "\<bar>?p - r * 900000\<bar> \<le> 1 / 2 ^ 34" by simp_all
  from otp_sum [OF p(1,2)] have s: "100000 \<le> ?s" "?s \<le> 1000000 - 1 / 2 ^ 33"
    "\<bar>?s - (100000 + ?p)\<bar> \<le> 1 / 2 ^ 34" by simp_all
  from p have "\<bar>?p\<bar> < 2 ^ 1024" by simp
  then have fp: "fl (r * 900000) = Some ?p" by (rule fl_Some)
  from s have "\<bar>?s\<bar> < 2 ^ 1024" by simp
  then have fs: "fl (100000 + ?p) = Some ?s" by (rule fl_Some)
  have "otpNumber r = Some \<lfloor>?s\<rfloor>" by (simp add: otpNumber_def fp fs)
  moreover from abs_chain [OF p(3) s(3)] have "\<bar>?s - (100000 + r * 900000)\<bar> \<le> 1 / 2 ^ 33"
    by simp
  ultimately show ?thesis using s(1,2) by blast
qed

subsection \<open>Decimal strings\<close>

declare toString_nat.simps [simp del]

lemma digit_is_numeric: "d < 10 \<Longrightarrow> digit d \<in> set ''0123456789''"
  unfolding digit_def by (rule nth_mem) simp

lemma digit_zero_iff: "d < 10 \<Longrightarrow> digit d = CHR ''0'' \<longleftrightarrow> d = 0"
proof -
  assume "d < 10"
  then have "d \<in> {0, 1, 2, 3, 4, 5, 6, 7, 8, 9}" by auto
  then show ?thesis by (auto simp: digit_def)
qed

lemma toString_nat_nonempty: "toString_nat n \<noteq> []"
  by (subst toString_nat.simps) simp

lemma toString_nat_numeric: "c \<in> set (toString_nat n) \<Longrightarrow> c \<in> set ''0123456789''"
proof (induction n arbitrary: c rule: toString_nat.induct)
  case (1 n)
  show ?case
  proof (cases "n < 10")
    case True
    with "1.prems" have "c = digit n" by (subst (asm) toString_nat.simps) simp
    with True show ?thesis using digit_is_numeric by blast
  next
    case False
    with "1.prems" have "c \<in> set (toString_nat (n div 10)) \<or> c = digit (n mod 10)"
      by (subst (asm) toString_nat.simps) auto
    then show ?thesis
    proof
      assume "c \<in> set (toString_nat (n div 10))"
      with "1.IH" False show ?thesis by blast
    next
      assume "c = digit (n mod 10)"
      then show ?thesis using digit_is_numeric [of "n mod 10"] by simp
    qed
  qed
qed

lemma toString_nat_width:
  "10 ^ k \<le> n \<Longrightarrow> n < 10 ^ Suc k \<Longrightarrow>
     length (toString_nat n) = Suc k \<and> hd (toString_nat n) \<noteq> CHR ''0''"
proof (induction k arbitrary: n)
  case 0
  then have "n < 10" "n \<noteq> 0" by auto
  then show ?case by (subst (1 2) toString_nat.simps) (simp add: digit_zero_iff)
next
  case (Suc k)
  have "(10::nat) ^ Suc k \<ge> 10" by simp
  with Suc.prems have big: "\<not> n < 10" by linarith
  from Suc.prems have lo: "10 ^ k \<le> n div 10" by (simp add: less_eq_div_iff_mult_less_eq)
  from Suc.prems have hi: "n div 10 < 10 ^ Suc k" by (simp add: div_less_iff_less_mult)
  from Suc.IH [OF lo hi] big show ?case
    by (subst (1 2) toString_nat.simps) (simp add: toString_nat_nonempty)
qed

lemma digit_code: "d < 10 \<Longrightarrow> (of_char (digit d) :: nat) = 48 + d"
proof -
  assume "d < 10"
  then have "d \<in> {0, 1, 2, 3, 4, 5, 6, 7, 8, 9}" by auto
  then show ?thesis by (auto simp: digit_def)
qed

lemma digit_inj:
  assumes "d < 10" "e < 10" "digit d = digit e"
  shows "d = e"
proof -
  from assms(3) have "(of_char (digit d) :: nat) = of_char (digit e)" by (rule arg_cong)
  then have "48 + d = 48 + e" by (simp only: digit_code [OF assms(1)] digit_code [OF assms(2)])
  then show ?thesis by (rule add_left_imp_eq)
qed

lemma toString_nat_inj: "toString_nat m = toString_nat n \<Longrightarrow> m = n"
proof (induction m arbitrary: n rule: toString_nat.induct)
  case (1 m)
  show ?case
  proof (cases "m < 10")
    case small_m: True
    show ?thesis
    proof (cases "n < 10")
      case True
      with small_m "1.prems" show ?thesis
        by (subst (asm) (1 2) toString_nat.simps) (simp add: digit_inj)
    next
      case False
      with small_m "1.prems" have "toString_nat (n div 10) = []"
        by (subst (asm) (1 2) toString_nat.simps) simp
      then show ?thesis by (simp add: toString_nat_nonempty)
    qed
  next
    case big_m: False
    show ?thesis
    proof (cases "n < 10")
      case True
      with big_m "1.prems" have "toString_nat (m div 10) = []"
        by (subst (asm) (1 2) toString_nat.simps) simp
      then show ?thesis by (simp add: toString_nat_nonempty)
    next
      case False
      with big_m "1.prems"
      have "toString_nat (m div 10) = toString_nat (n div 10)" "digit (m mod 10) = digit (n mod 10)"
        by (subst (asm) (1 2) toString_nat.simps, simp)+
      with "1.IH" [OF big_m] have "m div 10 = n div 10" "m mod 10 = n mod 10"
        by (simp_all add: digit_inj)
      then show ?thesis by (metis div_mult_mod_eq)
    qed
  qed
qed

lemma toString_inj_nonneg: "0 \<le> i \<Longrightarrow> 0 \<le> j \<Longrightarrow> toString i = toString j \<Longrightarrow> i = j"
  using toString_nat_inj [of "nat i" "nat j"] by (simp add: toString_def)

subsection \<open>The OTP generator\<close>

lemma generateOTP_shape:
  assumes "0 \<le> r" and "r \<le> 1 - 1 / 2 ^ 53"
  shows "\<exists>n. otpNumber r = Some n \<and> generateOTP r = toString n \<and> 100000 \<le> n \<and> n \<le> 999999
           \<and> length (generateOTP r) = 6
           \<and> (\<forall>c \<in> set (generateOTP r). c \<in> set ''0123456789'')
           \<and> hd (generateOTP r) \<noteq> CHR ''0''
           \<and> real_of_int n - 1 / 2 ^ 33 \<le> 100000 + 900000 * r
           \<and> 100000 + 900000 * r < real_of_int n + 1 + 1 / 2 ^ 33
           \<and> (\<forall>m. real_of_int m + 1 / 2 ^ 33 \<le> 100000 + 900000 * r
                    \<and> 100000 + 900000 * r < real_of_int m + 1 - 1 / 2 ^ 33
                  \<longrightarrow> generateOTP r = toString m)"
proof -
  from otpNumber_computed [OF assms] obtain s where s: "otpNumber r = Some \<lfloor>s\<rfloor>"
    "100000 \<le> s" "s \<le> 1000000 - 1 / 2 ^ 33" "\<bar>s - (100000 + r * 900000)\<bar> \<le> 1 / 2 ^ 33"
    by blast
  define n where "n = \<lfloor>s\<rfloor>"
  have fl: "real_of_int n \<le> s" "s < real_of_int n + 1" by (simp_all add: n_def)
  from s(2) have lo: "100000 \<le> n" by (simp add: n_def le_floor_iff)
  from s(3) have "s < 1000000" by simp
  then have "n < 1000000" by (simp add: n_def floor_less_iff)
  then have hi: "n \<le> 999999" by simp
  have gen: "generateOTP r = toString n" by (simp add: generateOTP_def s(1) n_def)
  from lo hi have "10 ^ 5 \<le> nat n" "nat n < 10 ^ Suc 5" by simp_all
  from toString_nat_width [OF this] lo
  have shape: "length (generateOTP r) = 6" "hd (generateOTP r) \<noteq> CHR ''0''"
    by (simp_all add: gen toString_def)
  have numeric: "\<forall>c \<in> set (generateOTP r). c \<in> set ''0123456789''"
    using lo toString_nat_numeric by (auto simp: gen toString_def simp del: set_simps)
  from fl s(4) have outer: "real_of_int n - 1 / 2 ^ 33 \<le> 100000 + 900000 * r"
    "100000 + 900000 * r < real_of_int n + 1 + 1 / 2 ^ 33"
    by linarith+
  have inner: "generateOTP r = toString m"
    if "real_of_int m + 1 / 2 ^ 33 \<le> 100000 + 900000 * r
        \<and> 100000 + 900000 * r < real_of_int m + 1 - 1 / 2 ^ 33" for m
  proof -
    from that s(4) have "real_of_int m \<le> s" "s < real_of_int m + 1" by linarith+
    then have "\<lfloor>s\<rfloor> = m" by (intro floor_unique) simp_all
    then show ?thesis by (simp add: gen n_def)
  qed
  from s(1) gen lo hi shape numeric outer inner show ?thesis
    unfolding n_def [symmetric] by blast
qed

lemma generateOTP_onto:
  assumes "100000 \<le> m" and "m \<le> 999999"
  shows "\<exists>k. 0 \<le> k \<and> k < 2 ^ 53 \<and> generateOTP (real_of_int k / 2 ^ 53) = toString m"
proof -
  define y :: real where "y = (real_of_int m - 100000 + 1 / 4) * 2 ^ 53 / 900000"
  define k where "k = \<lceil>y\<rceil>"
  have ky: "y \<le> real_of_int k" "real_of_int k < y + 1" by (simp_all add: k_def) linarith
  from assms have y0: "0 < y" by (simp add: y_def)
  with ky have k0: "0 \<le> k" by linarith
  from assms have "y \<le> (900000 - 1 + 1 / 4) * 2 ^ 53 / 900000"
    unfolding y_def by (intro divide_right_mono mult_right_mono) simp_all
  then have "y + 1 < 2 ^ 53" by simp
  with ky have "real_of_int k < 2 ^ 53" by linarith
  then have k1: "k < 2 ^ 53" using of_int_less_iff [of k "2 ^ 53", where ?'a = real] by simp
  let ?r = "real_of_int k / 2 ^ 53"
  from k0 have r0: "0 \<le> ?r" by simp
  from k1 have "real_of_int k \<le> 2 ^ 53 - 1"
    using of_int_le_iff [of k "2 ^ 53 - 1", where ?'a = real] by simp
  then have r1: "?r \<le> 1 - 1 / 2 ^ 53" by (simp add: field_simps)
  have "900000 * ?r = 900000 * real_of_int k / 2 ^ 53" by simp
  from ky have "real_of_int m - 100000 + 1 / 4 \<le> 900000 * ?r"
    "900000 * ?r < real_of_int m - 100000 + 1 / 4 + 900000 / 2 ^ 53"
    by (simp_all add: y_def field_simps)
  then have "real_of_int m + 1 / 2 ^ 33 \<le> 100000 + 900000 * ?r
        \<and> 100000 + 900000 * ?r < real_of_int m + 1 - 1 / 2 ^ 33"
    by simp
  with generateOTP_shape [OF r0 r1] have "generateOTP ?r = toString m" by blast
  with k0 k1 show ?thesis by blast
qed

lemma generateOTP_nonempty: "generateOTP r \<noteq> []"
  by (simp add: generateOTP_def toString_def toString_nat_nonempty split: option.splits)

lemma generateOTP_example: "generateOTP (382913 / 900000) = ''482913''"
  by (simp add: generateOTP_def otpNumber_def fl_def roundToDouble_def ulp_def binade_def
        expo_up.simps expo_down.simps roundTiesToEven_def Let_def toString_def toString_nat.simps
        digit_def)

lemma otpNumber_examples:
  "otpNumber 0 = Some 100000"
  "otpNumber (1 / 2) = Some 550000"
  "otpNumber (5048995550244235 / 2 ^ 53) = Some 604496"
  by (simp_all add: otpNumber_def fl_def roundToDouble_def ulp_def binade_def expo_up.simps
        expo_down.simps roundTiesToEven_def Let_def)

text \<open>
  C9 (as amended). A value \<open>r\<close> of \<^verbatim>\<open>Math.random()\<close> is a double with \<open>0 \<le> r < 1\<close>, hence
  \<open>r \<le> 1 - 1/2^53\<close>. For every such \<open>r\<close> the generated code is a string of exactly 6
  decimal digits whose first digit is not 0: it is the decimal numeral of an integer \<open>n\<close>
  between 100000 and 999999, computed with two double operations, so that
  \<open>n - 1/2^33 \<le> 100000 + 900000 r < n + 1 + 1/2^33\<close>. The numeral of each integer \<open>m\<close> is
  generated for every \<open>r\<close> with \<open>m + 1/2^33 \<le> 100000 + 900000 r < m + 1 - 1/2^33\<close>, and
  each of the 900000 codes is generated for some random value \<open>k/2^53\<close>: up to the
  rounding of the doubles, the draw is uniform over the codes 100000..999999, and no
  code with a leading zero is ever produced.
\<close>

theorem generateOTP_six_digits_no_leading_zero:
  assumes "0 \<le> r" and "r \<le> 1 - 1 / 2 ^ 53"
  shows "(\<exists>n. otpNumber r = Some n \<and> generateOTP r = toString n \<and> 100000 \<le> n \<and> n \<le> 999999
            \<and> length (generateOTP r) = 6
            \<and> (\<forall>c \<in> set (generateOTP r). c \<in> set ''0123456789'')
            \<and> hd (generateOTP r) \<noteq> CHR ''0''
            \<and> real_of_int n - 1 / 2 ^ 33 \<le> 100000 + 900000 * r
            \<and> 100000 + 900000 * r < real_of_int n + 1 + 1 / 2 ^ 33
            \<and> (\<forall>m. real_of_int m + 1 / 2 ^ 33 \<le> 100000 + 900000 * r
                     \<and> 100000 + 900000 * r < real_of_int m + 1 - 1 / 2 ^ 33
                   \<longrightarrow> generateOTP r = toString m))
       \<and> (\<forall>m. 100000 \<le> m \<and> m \<le> 999999 \<longrightarrow>
             (\<exists>k. 0 \<le> k \<and> k < 2 ^ 53 \<and> generateOTP (real_of_int k / 2 ^ 53) = toString m))"
proof (rule conjI)
  show "\<exists>n. otpNumber r = Some n \<and> generateOTP r = toString n \<and> 100000 \<le> n \<and> n \<le> 999999
            \<and> length (generateOTP r) = 6
            \<and> (\<forall>c \<in> set (generateOTP r). c \<in> set ''0123456789'')
            \<and> hd (generateOTP r) \<noteq> CHR ''0''
            \<and> real_of_int n - 1 / 2 ^ 33 \<le> 100000 + 900000 * r
            \<and> 100000 + 900000 * r < real_of_int n + 1 + 1 / 2 ^ 33
            \<and> (\<forall>m. real_of_int m + 1 / 2 ^ 33 \<le> 100000 + 900000 * r
                     \<and> 100000 + 900000 * r < real_of_int m + 1 - 1 / 2 ^ 33
                   \<longrightarrow> generateOTP r = toString m)"
    using assms by (rule generateOTP_shape)
  show "\<forall>m. 100000 \<le> m \<and> m \<le> 999999 \<longrightarrow>
             (\<exists>k. 0 \<le> k \<and> k < 2 ^ 53 \<and> generateOTP (real_of_int k / 2 ^ 53) = toString m)"
    using generateOTP_onto by blast
qed

theorem generateOTP_six_digits_witness:
  "(0::real) \<le> 1 / 2 \<and> (1::real) / 2 \<le> 1 - 1 / 2 ^ 53 \<and> generateOTP (1 / 2) = ''550000''
     \<and> length (generateOTP (1 / 2)) = 6 \<and> hd (generateOTP (1 / 2)) \<noteq> CHR ''0''
     \<and> otpNumber (1 / 2) = Some 550000
     \<and> (\<exists>k. 0 \<le> k \<and> k < 2 ^ 53 \<and> generateOTP (real_of_int k / 2 ^ 53) = ''999999'')
     \<and> otpNumber (5048995550244235 / 2 ^ 53) = Some 604496
     \<and> \<lfloor>(100000 :: real) + 900000 * (5048995550244235 / 2 ^ 53)\<rfloor> = 604495"
proof -
  have s: "generateOTP (1 / 2) = ''550000''"
    by (simp add: generateOTP_def otpNumber_examples toString_def toString_nat.simps digit_def)
  have h: "(0::real) \<le> 1 / 2" "(1::real) / 2 \<le> 1 - 1 / 2 ^ 53" by simp_all
  have t: "toString 999999 = ''999999''" by (simp add: toString_def toString_nat.simps digit_def)
  from generateOTP_six_digits_no_leading_zero [OF h]
  have a: "length (generateOTP (1 / 2)) = 6" and b: "hd (generateOTP (1 / 2)) \<noteq> CHR ''0''"
    and c: "\<forall>m. 100000 \<le> m \<and> m \<le> 999999 \<longrightarrow>
             (\<exists>k. 0 \<le> k \<and> k < 2 ^ 53 \<and> generateOTP (real_of_int k / 2 ^ 53) = toString m)"
    by blast+
  from c [rule_format, of 999999] t
  have d: "\<exists>k. 0 \<le> k \<and> k < 2 ^ 53 \<and> generateOTP (real_of_int k / 2 ^ 53) = ''999999''" by simp
  have e: "\<lfloor>(100000 :: real) + 900000 * (5048995550244235 / 2 ^ 53)\<rfloor> = 604495"
    by (rule floor_unique) simp_all
  from a b d e s h otpNumber_examples(2,3) show ?thesis by blast
qed

text \<open>
  C9 as stated fails: no value of \<^verbatim>\<open>Math.random()\<close> yields a code that begins with the
  digit 0, and the smallest value, 0, yields \<open>''100000''\<close>.
\<close>

theorem generateOTP_leading_zero_counterexample:
  "generateOTP 0 = ''100000''
   \<and> \<not> (\<exists>r. 0 \<le> r \<and> r \<le> 1 - 1 / 2 ^ 53 \<and> hd (generateOTP r) = CHR ''0'')"
proof -
  have "generateOTP 0 = ''100000''"
    by (simp add: generateOTP_def otpNumber_examples toString_def toString_nat.simps digit_def)
  then show ?thesis using generateOTP_shape by blast
qed

subsection \<open>The user collection and the OTP flow\<close>

lemma find_update_by_id:
  "find P us = Some u \<Longrightarrow> P u' \<Longrightarrow> u_id u' = u_id u \<Longrightarrow>
     find P (map (\<lambda>x. if u_id x = u_id u' then u' else x) us) = Some u'"
  by (induction us) (auto split: if_splits)

lemma User_findOne_update:
  "User_findOne p us = Some u \<Longrightarrow> u_phoneNumber u' = trim p \<Longrightarrow> u_id u' = u_id u \<Longrightarrow>
     User_findOne p (User_update u' us) = Some u'"
  unfolding User_findOne_def User_update_def by (rule find_update_by_id) simp_all

lemma User_findOne_insert:
  "User_findOne p us = None \<Longrightarrow> u_phoneNumber u' = trim p \<Longrightarrow>
     User_findOne p (User_insert u' us) = Some u'"
  unfolding User_findOne_def User_insert_def by (induction us) (auto split: if_splits)

lemma User_findOne_phone: "User_findOne p us = Some u \<Longrightarrow> u_phoneNumber u = trim p"
  unfolding User_findOne_def by (auto simp: find_Some_iff)

lemma phoneRegex_test_nonempty: "phoneRegex_test p \<Longrightarrow> p \<noteq> []"
  by (cases p) simp_all

lemma sendOTP_stores:
  assumes "phoneRegex_test p"
  shows "\<exists>u. User_findOne p (users (snd (sendOTP rand oid sms nodeEnv now (Some p) d))) = Some u
           \<and> u_otp u = Some (generateOTP rand) \<and> u_otpExpires u = Some (now + 600000)
           \<and> categories (snd (sendOTP rand oid sms nodeEnv now (Some p) d)) = categories d"
proof (cases "User_findOne p (users d)")
  case None
  then show ?thesis
    using assms phoneRegex_test_nonempty [OF assms]
    by (auto simp: sendOTP_def Let_def User_findOne_insert split: option.splits)
next
  case (Some u)
  then show ?thesis
    using assms phoneRegex_test_nonempty [OF assms] User_findOne_phone [OF Some]
    by (auto simp: sendOTP_def Let_def User_findOne_update split: option.splits)
qed

lemma verifyOTP_success:
  assumes "User_findOne p (users d) = Some u" "p \<noteq> []" "code \<noteq> []"
      and "u_otp u = Some code" "u_otpExpires u = Some e" "now \<le> e"
  shows "verifyOTP sign ins oid now (Some p) (Some code) d =
           (Response 200 True ''Phone number verified successfully''
              (Some \<lparr>vd_token = sign (u_id u), vd_id = u_id u, vd_phoneNumber = u_phoneNumber u,
                     vd_isVerified = True, vd_createdAt = u_createdAt u\<rparr>),
            d\<lparr>users := User_update
                   (u\<lparr>u_otp := None, u_otpExpires := None, u_isVerified := True, u_updatedAt := now\<rparr>)
                   (users d),
               categories := (if u_isVerified u then categories d
                              else createDefaultCategories ins oid now (u_id u) (categories d))\<rparr>)"
  using assms by (simp add: verifyOTP_def Let_def generateToken_def)

lemma verifyOTP_invalid:
  assumes "User_findOne p (users d) = Some u" "p \<noteq> []" "code \<noteq> []" "u_otp u \<noteq> Some code"
  shows "verifyOTP sign ins oid now (Some p) (Some code) d = (Response 400 False ''Invalid OTP'' None, d)"
  using assms by (simp add: verifyOTP_def)

lemma verifyOTP_expired:
  assumes "User_findOne p (users d) = Some u" "p \<noteq> []" "code \<noteq> []" "u_otp u = Some code"
      and "u_otpExpires u = None \<or> (\<exists>e. u_otpExpires u = Some e \<and> e < now)"
  shows "verifyOTP sign ins oid now (Some p) (Some code) d =
           (Response 400 False ''OTP has expired. Please request a new one.'' None, d)"
  using assms by (auto simp: verifyOTP_def)

lemma verifyOTP_failure_keeps_db:
  "status (fst (verifyOTP sign ins oid now bp bo d)) \<noteq> 200 \<Longrightarrow>
     snd (verifyOTP sign ins oid now bp bo d) = d"
  by (auto simp: verifyOTP_def Let_def split: option.splits if_splits)

lemma Category_insertMany_fresh:
  "distinct (map c_name ds) \<Longrightarrow> list_all (\<lambda>c. c_userId c = uid) ds \<Longrightarrow>
   \<not> list_ex (\<lambda>c. c_userId c = uid) coll \<Longrightarrow>
   Category_insertMany ds coll = (False, coll @ ds)"
proof (induction ds arbitrary: coll rule: rev_induct)
  case Nil
  then show ?case by simp
next
  case (snoc x xs)
  have step: "\<And>ys c. Category_insertMany ys c = (False, c @ ys) \<Longrightarrow>
     \<not> list_ex (\<lambda>k. c_userId k = c_userId x \<and> c_name k = c_name x) (c @ ys) \<Longrightarrow>
     Category_insertMany (ys @ [x]) c = (False, c @ ys @ [x])"
  proof -
    fix ys c
    show "Category_insertMany ys c = (False, c @ ys) \<Longrightarrow>
     \<not> list_ex (\<lambda>k. c_userId k = c_userId x \<and> c_name k = c_name x) (c @ ys) \<Longrightarrow>
     Category_insertMany (ys @ [x]) c = (False, c @ ys @ [x])"
      by (induction ys arbitrary: c) (auto split: if_splits)
  qed
  from snoc.prems have "Category_insertMany xs coll = (False, coll @ xs)"
    by (intro snoc.IH) auto
  moreover from snoc.prems
  have "\<not> list_ex (\<lambda>k. c_userId k = c_userId x \<and> c_name k = c_name x) (coll @ xs)"
    by (force simp: list_ex_iff list_all_iff image_iff)
  ultimately show ?case by (rule step)
qed

lemma defaultCategoryDocs_facts:
  "length (defaultCategoryDocs oid now uid) = 6"
  "list_all (\<lambda>c. c_userId c = uid) (defaultCategoryDocs oid now uid)"
  "map c_name (defaultCategoryDocs oid now uid) =
     [''Food'', ''Travel'', ''Stationery'', ''Fast Food'', ''Shopping'', ''Entertainment'']"
  "map c_color (defaultCategoryDocs oid now uid) =
     [''#10B981'', ''#3B82F6'', ''#F59E0B'', ''#EF4444'', ''#8B5CF6'', ''#EC4899'']"
  by (simp_all add: defaultCategoryDocs_def defaultCategories_def)

lemma defaultCategoryDocs_distinct: "distinct (map c_name (defaultCategoryDocs oid now uid))"
  by (simp add: defaultCategoryDocs_facts)

lemma trim_example: "trim ''+15550001111'' = ''+15550001111''"
  by (simp add: trim_def strip.simps whiteSpace_def)

lemma example_findOne:
  "User_findOne ''+15550001111'' (users example_db) = Some example_user"
  by (simp add: User_findOne_def trim_example example_db_def example_user_def)

subsection \<open>Verification of a code\<close>

text \<open>
  C2 (as amended). For every stored user and every non-empty submitted code: when the
  submitted code equals the stored code and the stored expiry is missing or earlier
  than the clock, \<open>verifyOTP\<close> fails with \<open>Expired\<close>; when the submitted code differs
  from the stored code, it fails with \<open>InvalidCode\<close>, whatever the clock and the expiry
  are. In both cases the store is unchanged.
\<close>

theorem verifyOTP_expired_or_invalid:
  assumes "User_findOne phoneNumber (users d) = Some user"
      and "phoneNumber \<noteq> []" and "otp \<noteq> []"
  shows "(u_otp user = Some otp \<longrightarrow> (\<forall>e. u_otpExpires user = Some e \<longrightarrow> e < now) \<longrightarrow>
            verifyOTP sign insertMany oid now (Some phoneNumber) (Some otp) d = (Expired, d))
       \<and> (u_otp user \<noteq> Some otp \<longrightarrow>
            verifyOTP sign insertMany oid now (Some phoneNumber) (Some otp) d = (InvalidCode, d))"
proof (intro conjI impI)
  assume "u_otp user = Some otp" and "\<forall>e. u_otpExpires user = Some e \<longrightarrow> e < now"
  then have "u_otpExpires user = None \<or> (\<exists>e. u_otpExpires user = Some e \<and> e < now)"
    by (cases "u_otpExpires user") simp_all
  with assms \<open>u_otp user = Some otp\<close>
  show "verifyOTP sign insertMany oid now (Some phoneNumber) (Some otp) d = (Expired, d)"
    unfolding Expired_def by (rule verifyOTP_expired)
next
  assume "u_otp user \<noteq> Some otp"
  with assms show "verifyOTP sign insertMany oid now (Some phoneNumber) (Some otp) d = (InvalidCode, d)"
    unfolding InvalidCode_def by (rule verifyOTP_invalid)
qed

theorem verifyOTP_expired_or_invalid_witness:
  "verifyOTP example_sign Category_insertMany example_oid 600001
      (Some ''+15550001111'') (Some ''482913'') example_db = (Expired, example_db)
   \<and> verifyOTP example_sign Category_insertMany example_oid 600001
      (Some ''+15550001111'') (Some ''000000'') example_db = (InvalidCode, example_db)"
proof -
  have ne: "''+15550001111'' \<noteq> []" "''482913'' \<noteq> []" "''000000'' \<noteq> []" by simp_all
  from verifyOTP_expired_or_invalid [OF example_findOne ne(1) ne(2), of 600001]
       verifyOTP_expired_or_invalid [OF example_findOne ne(1) ne(3), of 600001]
  show ?thesis by (simp add: example_user_def)
qed

text \<open>
  C2 as stated fails on the code issued at time 0 and expiring at 600000: at time
  700000 a wrong code is answered with \<open>InvalidCode\<close>, not \<open>Expired\<close>, because the
  code comparison comes first; and at the expiry instant 600000 itself the right code
  is still accepted, because the test is \<^verbatim>\<open>user.otpExpires < new Date()\<close> (the method
  \<open>isOTPValid\<close> of the model, which \<open>verifyOTP\<close> does not call, rejects it there).
\<close>

theorem verifyOTP_expiry_counterexample:
  "verifyOTP example_sign Category_insertMany example_oid 700000
      (Some ''+15550001111'') (Some ''000000'') example_db = (InvalidCode, example_db)
   \<and> (InvalidCode :: verifyOTP_data response) \<noteq> Expired
   \<and> status (fst (verifyOTP example_sign Category_insertMany example_oid 600000
      (Some ''+15550001111'') (Some ''482913'') example_db)) = 200
   \<and> \<not> isOTPValid 600000 example_user ''482913''"
  by (simp add: verifyOTP_def User_findOne_def trim_example example_db_def example_user_def
        InvalidCode_def Expired_def Let_def isOTPValid_def)

text \<open>
  C5. For every phone number that passes the format check, in any store: after
  \<open>sendOTP\<close> at time \<open>t0\<close>, a \<open>verifyOTP\<close> with the issued code at a time \<open>t1\<close> not
  after the expiry \<open>t0 + 600000\<close> succeeds and leaves the user with no code, no expiry
  and \<open>isVerified\<close> set; a second \<open>verifyOTP\<close> with the same phone number and code, at
  any time \<open>t2\<close> (in particular before \<open>t0 + 600000\<close>), fails with \<open>InvalidCode\<close> and
  changes nothing.
\<close>

theorem otp_single_use:
  assumes "phoneRegex_test phoneNumber" and "t1 \<le> t0 + 600000"
      and "sendOTP rand oid0 sms nodeEnv t0 (Some phoneNumber) d = (r0, d0)"
      and "verifyOTP sign insertMany oid1 t1 (Some phoneNumber) (Some (generateOTP rand)) d0 = (r1, d1)"
      and "verifyOTP sign insertMany oid2 t2 (Some phoneNumber) (Some (generateOTP rand)) d1 = (r2, d2)"
  shows "status r1 = 200 \<and> success r1
       \<and> (\<exists>u. User_findOne phoneNumber (users d1) = Some u
              \<and> u_otp u = None \<and> u_otpExpires u = None \<and> u_isVerified u)
       \<and> r2 = InvalidCode \<and> d2 = d1"
proof -
  have p: "phoneNumber \<noteq> []" using assms(1) by (rule phoneRegex_test_nonempty)
  from sendOTP_stores [OF assms(1), of rand oid0 sms nodeEnv t0 d] assms(3)
  obtain u where u: "User_findOne phoneNumber (users d0) = Some u"
    "u_otp u = Some (generateOTP rand)" "u_otpExpires u = Some (t0 + 600000)"
    by auto
  let ?u' = "u\<lparr>u_otp := None, u_otpExpires := None, u_isVerified := True, u_updatedAt := t1\<rparr>"
  from verifyOTP_success [OF u(1) p generateOTP_nonempty u(2) u(3) assms(2), of sign insertMany oid1]
       assms(4)
  have r1: "status r1 = 200" "success r1" and d1: "users d1 = User_update ?u' (users d0)"
    by auto
  have found: "User_findOne phoneNumber (users d1) = Some ?u'"
    unfolding d1 using u(1) User_findOne_phone [OF u(1)] by (intro User_findOne_update) simp_all
  have "u_otp ?u' \<noteq> Some (generateOTP rand)" by simp
  from verifyOTP_invalid [OF found p generateOTP_nonempty this, of sign insertMany oid2 t2] assms(5)
  have "r2 = InvalidCode" "d2 = d1" by (simp_all add: InvalidCode_def)
  with r1 found show ?thesis by simp
qed

theorem otp_single_use_witness:
  "phoneRegex_test ''+15550001111'' \<and> (300000::int) \<le> 0 + 600000
   \<and> generateOTP (382913 / 900000) = ''482913''
   \<and> status (fst (verifyOTP example_sign Category_insertMany example_oid 300000
        (Some ''+15550001111'') (Some ''482913'')
        (snd (sendOTP (382913 / 900000) example_oid None ''development'' 0
               (Some ''+15550001111'') empty_db)))) = 200
   \<and> fst (verifyOTP example_sign Category_insertMany example_oid 300001
        (Some ''+15550001111'') (Some ''482913'')
        (snd (verifyOTP example_sign Category_insertMany example_oid 300000
               (Some ''+15550001111'') (Some ''482913'')
               (snd (sendOTP (382913 / 900000) example_oid None ''development'' 0
                      (Some ''+15550001111'') empty_db))))) = InvalidCode"
proof -
  have ph: "phoneRegex_test ''+15550001111''" by (simp add: isDigit_def)
  have t: "(300000::int) \<le> 0 + 600000" by simp
  have g: "generateOTP (382913 / 900000) = ''482913''" by (rule generateOTP_example)
  from otp_single_use [where rand = "382913 / 900000" and ?oid0.0 = example_oid and sms = None
       and nodeEnv = "''development''" and d = empty_db and sign = example_sign
       and insertMany = Category_insertMany and ?oid1.0 = example_oid and ?oid2.0 = example_oid
       and ?t2.0 = 300001, OF ph t surjective_pairing surjective_pairing surjective_pairing]
  show ?thesis using ph g by simp
qed

subsection \<open>Seeding of the default categories\<close>

lemma verifyOTP_status_200:
  assumes "User_findOne p (users d) = Some u"
  shows "status (fst (verifyOTP sign ins oid now (Some p) (Some code) d)) = 200 \<longleftrightarrow>
           p \<noteq> [] \<and> code \<noteq> [] \<and> u_otp u = Some code \<and> (\<exists>e. u_otpExpires u = Some e \<and> now \<le> e)"
  using assms by (auto simp: verifyOTP_def Let_def split: option.splits)

text \<open>
  C8. For a stored user, \<open>verifyOTP\<close> answers 200 exactly when the code matches and has
  not expired, and a failed verification changes nothing. On success the response
  carries the token, whatever \<open>insertMany\<close> does (also when it throws); the categories
  are left untouched when the user was already verified, and are what
  \<open>insertMany\<close> of the six default documents leaves behind when the user was not; with
  \<open>Category_insertMany\<close> and a user who owns no category yet, these are the old
  categories followed by the six defaults. The user is verified afterwards, so a later
  login does not seed again. The six documents are the fixed starter set, each owned by
  the user.
\<close>

theorem verifyOTP_seeds_first_verification_only:
  assumes "User_findOne phoneNumber (users d) = Some user"
      and "verifyOTP sign insertMany oid now (Some phoneNumber) (Some otp) d = (r, d')"
  shows "(status r = 200 \<longleftrightarrow>
            phoneNumber \<noteq> [] \<and> otp \<noteq> [] \<and> u_otp user = Some otp
            \<and> (\<exists>e. u_otpExpires user = Some e \<and> now \<le> e))
       \<and> (status r \<noteq> 200 \<longrightarrow> d' = d)
       \<and> (status r = 200 \<longrightarrow>
             success r \<and> (\<exists>v. data r = Some v \<and> vd_token v = generateToken sign (u_id user))
             \<and> (u_isVerified user \<longrightarrow> categories d' = categories d)
             \<and> (\<not> u_isVerified user \<longrightarrow>
                   categories d' = snd (insertMany (defaultCategoryDocs oid now (u_id user)) (categories d)))
             \<and> (\<not> u_isVerified user \<longrightarrow> insertMany = Category_insertMany \<longrightarrow>
                   \<not> list_ex (\<lambda>c. c_userId c = u_id user) (categories d) \<longrightarrow>
                   categories d' = categories d @ defaultCategoryDocs oid now (u_id user))
             \<and> (\<exists>u'. User_findOne phoneNumber (users d') = Some u' \<and> u_isVerified u'))
       \<and> length (defaultCategoryDocs oid now (u_id user)) = 6
       \<and> list_all (\<lambda>c. c_userId c = u_id user) (defaultCategoryDocs oid now (u_id user))
       \<and> map (\<lambda>c. (c_name c, c_color c, c_icon c)) (defaultCategoryDocs oid now (u_id user)) =
           map (\<lambda>(n, col, ic). (n, col, Some ic)) defaultCategories"
proof -
  have st: "status r = 200 \<longleftrightarrow>
            phoneNumber \<noteq> [] \<and> otp \<noteq> [] \<and> u_otp user = Some otp
            \<and> (\<exists>e. u_otpExpires user = Some e \<and> now \<le> e)"
    using verifyOTP_status_200 [OF assms(1), of sign insertMany oid now otp] assms(2) by simp
  have fail: "status r \<noteq> 200 \<longrightarrow> d' = d"
    using verifyOTP_failure_keeps_db [of sign insertMany oid now "Some phoneNumber" "Some otp" d] assms(2)
    by simp
  have docs: "length (defaultCategoryDocs oid now (u_id user)) = 6"
    "list_all (\<lambda>c. c_userId c = u_id user) (defaultCategoryDocs oid now (u_id user))"
    "map (\<lambda>c. (c_name c, c_color c, c_icon c)) (defaultCategoryDocs oid now (u_id user)) =
           map (\<lambda>(n, col, ic). (n, col, Some ic)) defaultCategories"
    by (simp_all add: defaultCategoryDocs_def defaultCategories_def)
  have ok: "success r \<and> (\<exists>v. data r = Some v \<and> vd_token v = generateToken sign (u_id user))
             \<and> (u_isVerified user \<longrightarrow> categories d' = categories d)
             \<and> (\<not> u_isVerified user \<longrightarrow>
                   categories d' = snd (insertMany (defaultCategoryDocs oid now (u_id user)) (categories d)))
             \<and> (\<not> u_isVerified user \<longrightarrow> insertMany = Category_insertMany \<longrightarrow>
                   \<not> list_ex (\<lambda>c. c_userId c = u_id user) (categories d) \<longrightarrow>
                   categories d' = categories d @ defaultCategoryDocs oid now (u_id user))
             \<and> (\<exists>u'. User_findOne phoneNumber (users d') = Some u' \<and> u_isVerified u')"
    if s200: "status r = 200"
  proof -
    from s200 st obtain e where h: "phoneNumber \<noteq> []" "otp \<noteq> []" "u_otp user = Some otp"
      "u_otpExpires user = Some e" "now \<le> e" by auto
    let ?u' = "user\<lparr>u_otp := None, u_otpExpires := None, u_isVerified := True, u_updatedAt := now\<rparr>"
    note eq = verifyOTP_success [OF assms(1) h, of sign insertMany oid] 
    from eq assms(2) have r: "success r" "\<exists>v. data r = Some v \<and> vd_token v = generateToken sign (u_id user)"
      by (auto simp: generateToken_def)
    from eq assms(2) have us: "users d' = User_update ?u' (users d)" by auto
    from eq assms(2) have cs: "categories d' = (if u_isVerified user then categories d
         else createDefaultCategories insertMany oid now (u_id user) (categories d))" by auto
    have seed: "createDefaultCategories insertMany oid now (u_id user) (categories d) =
        snd (insertMany (defaultCategoryDocs oid now (u_id user)) (categories d))"
      by (simp add: createDefaultCategories_def split: prod.splits bool.splits)
    have fresh: "\<not> list_ex (\<lambda>c. c_userId c = u_id user) (categories d) \<Longrightarrow>
        snd (Category_insertMany (defaultCategoryDocs oid now (u_id user)) (categories d)) =
          categories d @ defaultCategoryDocs oid now (u_id user)"
      using Category_insertMany_fresh [OF defaultCategoryDocs_distinct docs(2)] by simp
    have found: "User_findOne phoneNumber (users d') = Some ?u'"
      unfolding us using assms(1) User_findOne_phone [OF assms(1)]
      by (intro User_findOne_update) simp_all
    from r cs seed fresh found show ?thesis by auto
  qed
  from st fail ok docs show ?thesis by blast
qed

theorem verifyOTP_seeding_witness:
  "status (fst (verifyOTP example_sign Category_insertMany example_oid 300000
        (Some ''+15550001111'') (Some ''482913'') example_db)) = 200
   \<and> length (categories (snd (verifyOTP example_sign Category_insertMany example_oid 300000
        (Some ''+15550001111'') (Some ''482913'') example_db))) = 6
   \<and> status (fst (verifyOTP example_sign (\<lambda>docs coll. (True, coll)) example_oid 300000
        (Some ''+15550001111'') (Some ''482913'') example_db)) = 200
   \<and> categories (snd (verifyOTP example_sign (\<lambda>docs coll. (True, coll)) example_oid 300000
        (Some ''+15550001111'') (Some ''482913'') example_db)) = []
   \<and> snd (verifyOTP example_sign Category_insertMany example_oid 300000
        (Some ''+15550001111'') (Some ''111111'') example_db) = example_db"
proof -
  note a = verifyOTP_seeds_first_verification_only [OF example_findOne surjective_pairing,
      of example_sign Category_insertMany example_oid 300000 "''482913''"]
  note b = verifyOTP_seeds_first_verification_only [OF example_findOne surjective_pairing,
      of example_sign "\<lambda>docs coll. (True, coll)" example_oid 300000 "''482913''"]
  note c = verifyOTP_seeds_first_verification_only [OF example_findOne surjective_pairing,
      of example_sign Category_insertMany example_oid 300000 "''111111''"]
  have u: "u_otp example_user = Some ''482913''" "u_otpExpires example_user = Some 600000"
    "\<not> u_isVerified example_user" "categories example_db = []"
    by (simp_all add: example_user_def example_db_def)
  from a u have a1: "status (fst (verifyOTP example_sign Category_insertMany example_oid 300000
        (Some ''+15550001111'') (Some ''482913'') example_db)) = 200"
    by simp
  from a have len: "length (defaultCategoryDocs example_oid 300000 (u_id example_user)) = 6"
    by blast
  from a a1 u have "categories (snd (verifyOTP example_sign Category_insertMany example_oid 300000
        (Some ''+15550001111'') (Some ''482913'') example_db)) =
      defaultCategoryDocs example_oid 300000 (u_id example_user)"
    by auto
  with len have "length (categories (snd (verifyOTP example_sign Category_insertMany example_oid 300000
        (Some ''+15550001111'') (Some ''482913'') example_db))) = 6"
    by simp
  note a1 this
  moreover from b u have "status (fst (verifyOTP example_sign (\<lambda>docs coll. (True, coll)) example_oid 300000
        (Some ''+15550001111'') (Some ''482913'') example_db)) = 200"
    and "categories (snd (verifyOTP example_sign (\<lambda>docs coll. (True, coll)) example_oid 300000
        (Some ''+15550001111'') (Some ''482913'') example_db)) = []"
    by simp_all
  moreover from c u have "snd (verifyOTP example_sign Category_insertMany example_oid 300000
        (Some ''+15550001111'') (Some ''111111'') example_db) = example_db"
    by simp
  ultimately show ?thesis by blast
qed

subsection \<open>Ownership of categories and expenses\<close>

lemma find_None_distinct_id:
  assumes "x \<in> set xs" "distinct (map key xs)" "\<not> Q x"
  shows "find (\<lambda>y. key y = key x \<and> Q y) xs = None"
proof -
  have "\<And>y. y \<in> set xs \<Longrightarrow> key y = key x \<Longrightarrow> y = x"
    using assms(1,2) by (meson distinct_map inj_onD)
  with assms(3) show ?thesis by (auto simp: find_None_iff)
qed

lemma find_None_filter: "find P xs = None \<Longrightarrow> find P (filter R xs) = None"
  by (auto simp: find_None_iff)

lemma Category_findOne_foreign:
  assumes "c \<in> set (categories d)" "distinct (map c_id (categories d))" "c_userId c \<noteq> a"
  shows "Category_findOne (c_id c) a (categories d) = None"
    and "Category_findOne (c_id c) a (filter (\<lambda>x. x \<noteq> c) (categories d)) = None"
proof -
  show "Category_findOne (c_id c) a (categories d) = None"
    unfolding Category_findOne_def using assms by (intro find_None_distinct_id) auto
  then show "Category_findOne (c_id c) a (filter (\<lambda>x. x \<noteq> c) (categories d)) = None"
    unfolding Category_findOne_def by (rule find_None_filter)
qed

lemma Expense_findOne_foreign:
  assumes "e \<in> set (expenses d)" "distinct (map e_id (expenses d))" "e_userId e \<noteq> a"
  shows "Expense_findOne (e_id e) a (expenses d) = None"
    and "Expense_findOne (e_id e) a (filter (\<lambda>x. x \<noteq> e) (expenses d)) = None"
proof -
  show "Expense_findOne (e_id e) a (expenses d) = None"
    unfolding Expense_findOne_def using assms by (intro find_None_distinct_id) auto
  then show "Expense_findOne (e_id e) a (filter (\<lambda>x. x \<noteq> e) (expenses d)) = None"
    unfolding Expense_findOne_def by (rule find_None_filter)
qed

lemma category_ops_not_found:
  assumes "truthy userId = Some a" "isValid i" "Category_findOne i a (categories d) = None"
  shows "getCategoryById isValid userId i d = (Response 404 False ''Category not found'' None, d)"
    and "deleteCategory isValid userId i d = (Response 404 False ''Category not found'' None, d)"
    and "updateCategory isValid now userId i body_name body_color body_icon d =
           (if truthy body_name = None \<or> truthy body_color = None
            then Response 400 False ''Name and color are required'' None
            else Response 404 False ''Category not found'' None, d)"
  using assms
  by (auto simp: getCategoryById_def deleteCategory_def updateCategory_def split: option.splits)

lemma expense_ops_not_found:
  assumes "truthy userId = Some a" "isValid i" "Expense_findOne i a (expenses d) = None"
  shows "getExpenseById isValid now userId i d = (Response 404 False ''Expense not found'' None, d)"
    and "deleteExpense isValid userId i d = (Response 404 False ''Expense not found'' None, d)"
    and "updateExpense isValid parseFloat parseDate now userId i body_amount body_description
           body_categoryId body_date receipt d = (Response 404 False ''Expense not found'' None, d)"
  using assms
  by (simp_all add: getExpenseById_def deleteExpense_def updateExpense_def)

text \<open>
  C1 (as amended). Every by-id read, update and delete of a category or an expense
  looks the record up by its id together with the requesting user's id. For an
  authenticated user A and a stored record of another owner (ids being unique in a
  collection and well-formed): \<open>getCategoryById\<close>, \<open>deleteCategory\<close>, \<open>getExpenseById\<close>,
  \<open>updateExpense\<close> and \<open>deleteExpense\<close> answer 404 and leave the store as it was;
  \<open>updateCategory\<close> answers 404 when name and color are supplied and 400, "Name and
  color are required", when one of them is missing, and leaves the store as it was. In
  every case the response is the one A gets from the store without that record.
\<close>

theorem cross_owner_access_not_found:
  assumes "truthy userId = Some a"
  shows "(c \<in> set (categories d) \<and> c_userId c \<noteq> a \<and> distinct (map c_id (categories d))
            \<and> isValid (c_id c) \<longrightarrow>
          getCategoryById isValid userId (c_id c) d =
            (Response 404 False ''Category not found'' None, d)
          \<and> fst (getCategoryById isValid userId (c_id c) (withoutCategory c d)) =
            Response 404 False ''Category not found'' None
          \<and> deleteCategory isValid userId (c_id c) d =
            (Response 404 False ''Category not found'' None, d)
          \<and> fst (deleteCategory isValid userId (c_id c) (withoutCategory c d)) =
            Response 404 False ''Category not found'' None
          \<and> updateCategory isValid now userId (c_id c) body_name body_color body_icon d =
            (if truthy body_name = None \<or> truthy body_color = None
             then Response 400 False ''Name and color are required'' None
             else Response 404 False ''Category not found'' None, d)
          \<and> fst (updateCategory isValid now userId (c_id c) body_name body_color body_icon
                   (withoutCategory c d)) =
            fst (updateCategory isValid now userId (c_id c) body_name body_color body_icon d))
       \<and> (e \<in> set (expenses d) \<and> e_userId e \<noteq> a \<and> distinct (map e_id (expenses d))
            \<and> isValid (e_id e) \<longrightarrow>
          getExpenseById isValid now userId (e_id e) d =
            (Response 404 False ''Expense not found'' None, d)
          \<and> fst (getExpenseById isValid now userId (e_id e) (withoutExpense e d)) =
            Response 404 False ''Expense not found'' None
          \<and> deleteExpense isValid userId (e_id e) d =
            (Response 404 False ''Expense not found'' None, d)
          \<and> fst (deleteExpense isValid userId (e_id e) (withoutExpense e d)) =
            Response 404 False ''Expense not found'' None
          \<and> updateExpense isValid parseFloat parseDate now userId (e_id e) body_amount
               body_description body_categoryId body_date receipt d =
            (Response 404 False ''Expense not found'' None, d)
          \<and> fst (updateExpense isValid parseFloat parseDate now userId (e_id e) body_amount
                   body_description body_categoryId body_date receipt (withoutExpense e d)) =
            Response 404 False ''Expense not found'' None)"
proof (intro conjI impI)
  assume h: "c \<in> set (categories d) \<and> c_userId c \<noteq> a \<and> distinct (map c_id (categories d))
            \<and> isValid (c_id c)"
  then have v: "isValid (c_id c)" by simp
  from h have here: "Category_findOne (c_id c) a (categories d) = None"
    and gone: "Category_findOne (c_id c) a (categories (withoutCategory c d)) = None"
    using Category_findOne_foreign [of c d a] by (simp_all add: withoutCategory_def)
  note on_d = category_ops_not_found [where isValid = isValid and i = "c_id c", OF assms v here]
  note on_d0 = category_ops_not_found [where isValid = isValid and i = "c_id c", OF assms v gone]
  show "getCategoryById isValid userId (c_id c) d =
            (Response 404 False ''Category not found'' None, d)"
    by (rule on_d)
  show "fst (getCategoryById isValid userId (c_id c) (withoutCategory c d)) =
            Response 404 False ''Category not found'' None"
    by (simp add: on_d0)
  show "deleteCategory isValid userId (c_id c) d =
            (Response 404 False ''Category not found'' None, d)"
    by (rule on_d)
  show "fst (deleteCategory isValid userId (c_id c) (withoutCategory c d)) =
            Response 404 False ''Category not found'' None"
    by (simp add: on_d0)
  show "updateCategory isValid now userId (c_id c) body_name body_color body_icon d =
            (if truthy body_name = None \<or> truthy body_color = None
             then Response 400 False ''Name and color are required'' None
             else Response 404 False ''Category not found'' None, d)"
    by (rule on_d)
  show "fst (updateCategory isValid now userId (c_id c) body_name body_color body_icon
                   (withoutCategory c d)) =
            fst (updateCategory isValid now userId (c_id c) body_name body_color body_icon d)"
    by (simp only: on_d on_d0 fst_conv)
next
  assume h: "e \<in> set (expenses d) \<and> e_userId e \<noteq> a \<and> distinct (map e_id (expenses d))
            \<and> isValid (e_id e)"
  then have v: "isValid (e_id e)" by simp
  from h have here: "Expense_findOne (e_id e) a (expenses d) = None"
    and gone: "Expense_findOne (e_id e) a (expenses (withoutExpense e d)) = None"
    using Expense_findOne_foreign [of e d a] by (simp_all add: withoutExpense_def)
  note on_d = expense_ops_not_found [where isValid = isValid and i = "e_id e", OF assms v here]
  note on_d0 = expense_ops_not_found [where isValid = isValid and i = "e_id e", OF assms v gone]
  show "getExpenseById isValid now userId (e_id e) d =
            (Response 404 False ''Expense not found'' None, d)"
    by (rule on_d)
  show "fst (getExpenseById isValid now userId (e_id e) (withoutExpense e d)) =
            Response 404 False ''Expense not found'' None"
    by (simp add: on_d0)
  show "deleteExpense isValid userId (e_id e) d =
            (Response 404 False ''Expense not found'' None, d)"
    by (rule on_d)
  show "fst (deleteExpense isValid userId (e_id e) (withoutExpense e d)) =
            Response 404 False ''Expense not found'' None"
    by (simp add: on_d0)
  show "updateExpense isValid parseFloat parseDate now userId (e_id e) body_amount
               body_description body_categoryId body_date receipt d =
            (Response 404 False ''Expense not found'' None, d)"
    by (rule on_d)
  show "fst (updateExpense isValid parseFloat parseDate now userId (e_id e) body_amount
                   body_description body_categoryId body_date receipt (withoutExpense e d)) =
            Response 404 False ''Expense not found'' None"
    by (simp add: on_d0)
qed

lemma ledger_facts:
  "truthy (Some user_A) = Some user_A"
  "example_category \<in> set (categories ledger_db)"
  "c_userId example_category \<noteq> user_A"
  "distinct (map c_id (categories ledger_db))"
  "example_isValid (c_id example_category)"
  "example_expense \<in> set (expenses ledger_db)"
  "e_userId example_expense \<noteq> user_A"
  "distinct (map e_id (expenses ledger_db))"
  "example_isValid (e_id example_expense)"
  by (simp_all add: truthy_def user_A_def user_B_def ledger_db_def example_category_def
        example_expense_def example_isValid_def isHex_def)

theorem cross_owner_access_witness:
  "example_category \<in> set (categories ledger_db) \<and> c_userId example_category \<noteq> user_A
   \<and> example_expense \<in> set (expenses ledger_db) \<and> e_userId example_expense \<noteq> user_A
   \<and> deleteCategory example_isValid (Some user_A) (c_id example_category) ledger_db =
       (Response 404 False ''Category not found'' None, ledger_db)
   \<and> updateCategory example_isValid 9000 (Some user_A) (c_id example_category)
        (Some ''Mine'') (Some ''#FFFFFF'') None ledger_db =
       (Response 404 False ''Category not found'' None, ledger_db)
   \<and> updateExpense example_isValid (\<lambda>s. Some 1) (\<lambda>s. Some 0) 9000 (Some user_A)
        (e_id example_expense) (Some ''1'') None None None None ledger_db =
       (Response 404 False ''Expense not found'' None, ledger_db)
   \<and> deleteExpense example_isValid (Some user_A) (e_id example_expense) ledger_db =
       (Response 404 False ''Expense not found'' None, ledger_db)"
proof -
  note t = cross_owner_access_not_found [where userId = "Some user_A" and a = user_A
      and d = ledger_db and isValid = example_isValid and c = example_category
      and e = example_expense and now = 9000 and body_name = "Some ''Mine''"
      and body_color = "Some ''#FFFFFF''" and body_icon = None
      and parseFloat = "\<lambda>s. Some 1" and parseDate = "\<lambda>s. Some 0" and body_amount = "Some ''1''"
      and body_description = None and body_categoryId = None and body_date = None
      and receipt = None, OF ledger_facts(1)]
  note tc = t [THEN conjunct1, rule_format, OF conjI [OF ledger_facts(2) conjI [OF ledger_facts(3)
        conjI [OF ledger_facts(4) ledger_facts(5)]]]]
  note te = t [THEN conjunct2, rule_format, OF conjI [OF ledger_facts(6) conjI [OF ledger_facts(7)
        conjI [OF ledger_facts(8) ledger_facts(9)]]]]
  from tc te ledger_facts show ?thesis by (simp add: truthy_def)
qed

text \<open>
  C1 as stated fails: A's \<open>updateCategory\<close> on the category of B, sent without a name, is
  answered with 400 (invalid input), not with 404, because the body is validated before
  the lookup.
\<close>

theorem cross_owner_update_counterexample:
  "example_category \<in> set (categories ledger_db) \<and> c_userId example_category = user_B
   \<and> user_A \<noteq> user_B
   \<and> updateCategory example_isValid 9000 (Some user_A) (c_id example_category)
        None (Some ''#FFFFFF'') None ledger_db =
       (Response 400 False ''Name and color are required'' None, ledger_db)"
  by (simp add: updateCategory_def truthy_def user_A_def user_B_def ledger_db_def
        example_category_def example_isValid_def isHex_def)

subsection \<open>Category updates need name and color\<close>

text \<open>
  C10. For every authenticated \<open>updateCategory\<close> request whose name or color is absent
  (or empty), the answer is 400 and the store is unchanged: "Name and color are
  required" when the id is well-formed, "Invalid category ID" when it is not. So no
  update that omits the name or the color, such as one of the icon alone, can succeed.
\<close>

theorem updateCategory_requires_name_and_color:
  assumes "truthy userId = Some uid"
      and "truthy body_name = None \<or> truthy body_color = None"
  shows "status (fst (updateCategory isValid now userId i body_name body_color body_icon d)) = 400
       \<and> \<not> success (fst (updateCategory isValid now userId i body_name body_color body_icon d))
       \<and> snd (updateCategory isValid now userId i body_name body_color body_icon d) = d
       \<and> (isValid i \<longrightarrow>
            fst (updateCategory isValid now userId i body_name body_color body_icon d) =
              Response 400 False ''Name and color are required'' None)
       \<and> (\<not> isValid i \<longrightarrow>
            fst (updateCategory isValid now userId i body_name body_color body_icon d) =
              Response 400 False ''Invalid category ID'' None)"
  using assms by (auto simp: updateCategory_def split: option.splits)

theorem updateCategory_requires_name_and_color_witness:
  "truthy (Some user_B) = Some user_B \<and> truthy (None :: string option) = None
   \<and> updateCategory example_isValid 9000 (Some user_B) (c_id example_category)
        None (Some ''#FFFFFF'') (Some ''x'') ledger_db =
       (Response 400 False ''Name and color are required'' None, ledger_db)"
proof -
  have a: "truthy (Some user_B) = Some user_B" by (simp add: truthy_def user_B_def)
  have b: "truthy None = None \<or> truthy (Some ''#FFFFFF'') = None" by (simp add: truthy_def)
  have v: "example_isValid (c_id example_category)" by (rule ledger_facts)
  from updateCategory_requires_name_and_color [OF a b, of example_isValid 9000
      "c_id example_category" "Some ''x''" ledger_db] v
  have "fst (updateCategory example_isValid 9000 (Some user_B) (c_id example_category)
        None (Some ''#FFFFFF'') (Some ''x'') ledger_db) =
       Response 400 False ''Name and color are required'' None"
    and "snd (updateCategory example_isValid 9000 (Some user_B) (c_id example_category)
        None (Some ''#FFFFFF'') (Some ''x'') ledger_db) = ledger_db"
    by blast+
  then show ?thesis using a by (simp add: prod_eq_iff truthy_def)
qed

subsection \<open>Authentication re-checks the user\<close>

lemma User_findById_id: "User_findById i us = Some u \<Longrightarrow> u_id u = i"
  unfolding User_findById_def by (auto simp: find_Some_iff)

lemma authenticate_valid_token:
  assumes "take 7 h = ''Bearer ''" "secret \<noteq> []" "verify (drop 7 h) secret = Inr decoded"
      and "isValid (jp_userId decoded)"
  shows "authenticate verify isValid (Some secret) (Some h) us =
           (case User_findById (jp_userId decoded) us of
              None \<Rightarrow> Inl (Response 401 False ''User no longer exists.'' None)
            | Some user \<Rightarrow>
                if \<not> u_isVerified user then
                  Inl (Response 401 False ''Account not verified. Please verify your phone number.'' None)
                else Inr \<lparr>ru_userId = u_id user, ru_phoneNumber = u_phoneNumber user\<rparr>)"
  using assms by (simp add: authenticate_def)

text \<open>
  C4. For a request whose bearer token verifies against the server secret (signature
  valid, not expired) and embeds a well-formed user id: \<open>authenticate\<close> answers 401 when
  no user with that id exists and 401 when the user exists with \<open>isVerified\<close> false; it
  lets the request proceed exactly when the user exists and is verified, and then
  \<^verbatim>\<open>req.user\<close> carries that user's id and phone number. The users are read from the store
  at the time of the request, and a handler behind \<open>router_use_authenticate\<close> runs only
  in the last case, so the check is made on every authenticated request.
\<close>

theorem authenticate_rechecks_user:
  assumes "take 7 authHeader = ''Bearer ''" and "secret \<noteq> []"
      and "verify (drop 7 authHeader) secret = Inr decoded"
      and "isValid (jp_userId decoded)"
  shows "(User_findById (jp_userId decoded) us = None \<longrightarrow>
            authenticate verify isValid (Some secret) (Some authHeader) us =
              Inl (Response 401 False ''User no longer exists.'' None)
            \<and> router_use_authenticate verify isValid (Some secret) (Some authHeader) us handler =
              Inl (Response 401 False ''User no longer exists.'' None))
       \<and> (\<forall>user. User_findById (jp_userId decoded) us = Some user \<and> \<not> u_isVerified user \<longrightarrow>
            authenticate verify isValid (Some secret) (Some authHeader) us =
              Inl (Response 401 False ''Account not verified. Please verify your phone number.'' None)
            \<and> router_use_authenticate verify isValid (Some secret) (Some authHeader) us handler =
              Inl (Response 401 False ''Account not verified. Please verify your phone number.'' None))
       \<and> (\<forall>user. User_findById (jp_userId decoded) us = Some user \<and> u_isVerified user \<longrightarrow>
            authenticate verify isValid (Some secret) (Some authHeader) us =
              Inr \<lparr>ru_userId = jp_userId decoded, ru_phoneNumber = u_phoneNumber user\<rparr>
            \<and> router_use_authenticate verify isValid (Some secret) (Some authHeader) us handler =
              Inr (handler \<lparr>ru_userId = jp_userId decoded, ru_phoneNumber = u_phoneNumber user\<rparr>))
       \<and> ((\<exists>ru. authenticate verify isValid (Some secret) (Some authHeader) us = Inr ru) \<longleftrightarrow>
            (\<exists>user. User_findById (jp_userId decoded) us = Some user \<and> u_isVerified user))"
proof -
  note eq = authenticate_valid_token [where isValid = isValid and verify = verify
      and h = authHeader and secret = secret and decoded = decoded and us = us, OF assms]
  show ?thesis
  proof (cases "User_findById (jp_userId decoded) us")
    case None
    with eq show ?thesis by (simp add: router_use_authenticate_def)
  next
    case (Some user)
    with eq User_findById_id [OF Some] show ?thesis
      by (cases "u_isVerified user") (simp_all add: router_use_authenticate_def)
  qed
qed

lemma example_token:
  "take 7 (''Bearer jwt.'' @ user_B) = ''Bearer ''"
  "''s3cret'' \<noteq> []"
  "example_verify (drop 7 (''Bearer jwt.'' @ user_B)) ''s3cret'' =
     Inr \<lparr>jp_userId = user_B, jp_iat = 0, jp_exp = 2592000\<rparr>"
  "example_isValid (jp_userId \<lparr>jp_userId = user_B, jp_iat = 0, jp_exp = 2592000\<rparr>)"
  by (simp_all add: example_verify_def user_B_def example_isValid_def isHex_def)

theorem authenticate_rechecks_user_witness:
  "authenticate example_verify example_isValid (Some ''s3cret'') (Some (''Bearer jwt.'' @ user_B)) [] =
     Inl (Response 401 False ''User no longer exists.'' None)
   \<and> authenticate example_verify example_isValid (Some ''s3cret'') (Some (''Bearer jwt.'' @ user_B))
       [example_user] =
     Inl (Response 401 False ''Account not verified. Please verify your phone number.'' None)
   \<and> authenticate example_verify example_isValid (Some ''s3cret'') (Some (''Bearer jwt.'' @ user_B))
       (users ledger_db) =
     Inr \<lparr>ru_userId = user_B, ru_phoneNumber = ''+15550001111''\<rparr>"
proof -
  note t = authenticate_rechecks_user [where isValid = example_isValid and handler = id
      and verify = example_verify and authHeader = "''Bearer jwt.'' @ user_B"
      and secret = "''s3cret''"
      and decoded = "\<lparr>jp_userId = user_B, jp_iat = 0, jp_exp = 2592000\<rparr>",
      OF example_token]
  have f0: "User_findById user_B [] = None" by (simp add: User_findById_def)
  have f1: "User_findById user_B [example_user] = Some example_user"
    "\<not> u_isVerified example_user" "u_phoneNumber example_user = ''+15550001111''"
    by (simp_all add: User_findById_def example_user_def user_B_def)
  have f2: "User_findById user_B (users ledger_db) =
      Some (example_user\<lparr>u_otp := None, u_otpExpires := None, u_isVerified := True\<rparr>)"
    by (simp add: User_findById_def ledger_db_def example_user_def user_B_def)
  from t [of "[]"] f0 have a: "authenticate example_verify example_isValid (Some ''s3cret'')
      (Some (''Bearer jwt.'' @ user_B)) [] = Inl (Response 401 False ''User no longer exists.'' None)"
    by simp
  from t [of "[example_user]"] f1 have b: "authenticate example_verify example_isValid (Some ''s3cret'')
      (Some (''Bearer jwt.'' @ user_B)) [example_user] =
     Inl (Response 401 False ''Account not verified. Please verify your phone number.'' None)"
    by simp
  from t [of "users ledger_db"] f2 f1(3) have c: "authenticate example_verify example_isValid
      (Some ''s3cret'') (Some (''Bearer jwt.'' @ user_B)) (users ledger_db) =
     Inr \<lparr>ru_userId = user_B, ru_phoneNumber = ''+15550001111''\<rparr>"
    by simp
  from a b c show ?thesis by blast
qed

subsection \<open>Aggregation\<close>









lemma group_null_total:
  "(case group_null dsum es of [] \<Rightarrow> 0 | x # _ \<Rightarrow> fst x) =
     (if es = [] then 0 else dsum (map e_amount es))"
  by (simp add: group_null_def)

lemma matchUserId_string: "matchUserId (BString uid) = (\<lambda>e. e_userId e = uid)"
  by (simp add: fun_eq_iff matchUserId_def)

lemma matchUserId_objectId: "matchUserId (BObjectId uid) = (\<lambda>e. False)"
  by (simp add: fun_eq_iff matchUserId_def)

lemma getExpenseSummary_result:
  assumes "truthy userId = Some uid"
  shows "getExpenseSummary dsum startOfMonth endOfMonth now userId d =
    (Response 200 True []
       (Some \<lparr>sm_totalExpenses =
                (if filter (\<lambda>e. e_userId e = uid) (expenses d) = [] then 0
                 else dsum (map e_amount (filter (\<lambda>e. e_userId e = uid) (expenses d)))),
              sm_monthlyExpenses =
                (if filter (\<lambda>e. e_userId e = uid \<and> startOfMonth now \<le> e_date e
                             \<and> e_date e \<le> endOfMonth now) (expenses d) = [] then 0
                 else dsum (map e_amount
                   (filter (\<lambda>e. e_userId e = uid \<and> startOfMonth now \<le> e_date e
                              \<and> e_date e \<le> endOfMonth now) (expenses d)))),
              sm_categoryBreakdown =
                map (withPercentage
                       (if filter (\<lambda>e. e_userId e = uid \<and> startOfMonth now \<le> e_date e
                             \<and> e_date e \<le> endOfMonth now) (expenses d) = [] then 0
                        else dsum (map e_amount
                          (filter (\<lambda>e. e_userId e = uid \<and> startOfMonth now \<le> e_date e
                                     \<and> e_date e \<le> endOfMonth now) (expenses d)))))
                  (group_by_category dsum
                     (lookup_unwind (categories d)
                        (filter (\<lambda>e. e_userId e = uid \<and> startOfMonth now \<le> e_date e
                                   \<and> e_date e \<le> endOfMonth now) (expenses d)))),
              sm_recentTransactions =
                List.map_filter (formatRecent now (categories d))
                  (recentTransactions uid (expenses d))\<rparr>),
     d)"
  using assms
  unfolding getExpenseSummary_def Let_def group_null_total matchUserId_string matchDate_def
  by simp

lemma fl_zero: "fl 0 = Some 0"
  by (simp add: fl_def roundToDouble_def)






subsection \<open>The monthly summary\<close>

lemma summary_example:
  "map_option (\<lambda>s. (sm_totalExpenses s, sm_monthlyExpenses s,
                    map (\<lambda>i. (cr_name (bi_category i), bi_totalAmount i, bi_transactionCount i,
                               bi_percentage i)) (sm_categoryBreakdown s),
                    map rd_id (sm_recentTransactions s)))
     (data (fst (getExpenseSummary sum_list (\<lambda>t. 0) (\<lambda>t. 2678399999) 5000 (Some user_B)
                   summary_db))) =
   Some (240, 240, [(''Food'', 125, 2, Some 52), (''Travel'', 75, 1, Some 31)],
         [''75a1b2c3d4e5f6a7b8c9d0e2'', ''75a1b2c3d4e5f6a7b8c9d0e3'', ''75a1b2c3d4e5f6a7b8c9d0e1''])"
  by (simp add: getExpenseSummary_def truthy_def user_B_def summary_db_def ledger_db_def
        mk_expense_def example_category_def Let_def group_null_def matchUserId_def matchDate_def
        lookup_unwind_def group_by_category_def withPercentage_def Math_round_def
        recentTransactions_def formatRecent_def populate_def transformPopulated_def
        js_mul_def js_div_def fl_def roundToDouble_def ulp_def binade_def
        expo_up.simps expo_down.simps roundTiesToEven_def)


lemma truthy_user_B: "truthy (Some user_B) = Some user_B"
  by (simp add: truthy_def user_B_def)





subsection \<open>The recent activity\<close>

lemma recentTransactions_sorted:
  "sorted_wrt (\<lambda>a b. e_date b < e_date a \<or> (e_date a = e_date b \<and> e_createdAt b \<le> e_createdAt a))
     (recentTransactions uid es)"
proof -
  let ?key = "\<lambda>e. (- e_date e, - e_createdAt e)"
  let ?xs = "sort_key ?key (filter (\<lambda>e. e_userId e = uid) es)"
  have "sorted (map ?key ?xs)" by (rule sorted_sort_key)
  then have "sorted_wrt (\<lambda>a b. ?key a \<le> ?key b) ?xs" by (simp add: sorted_map)
  then have "sorted_wrt (\<lambda>a b. ?key a \<le> ?key b) (take 5 ?xs)" by (rule sorted_wrt_take)
  then show ?thesis
    unfolding recentTransactions_def by (rule sorted_wrt_mono_rel [rotated]) auto
qed

lemma recentTransactions_owner: "e \<in> set (recentTransactions uid es) \<Longrightarrow> e_userId e = uid \<and> e \<in> set es"
  unfolding recentTransactions_def by (auto dest: in_set_takeD)

lemma recentTransactions_length: "length (recentTransactions uid es) \<le> 5"
  unfolding recentTransactions_def by simp

lemma recentTransactions_most_recent:
  assumes "e \<in> set es" "e_userId e = uid" "e \<notin> set (recentTransactions uid es)"
      and "f \<in> set (recentTransactions uid es)"
  shows "e_date e < e_date f \<or> (e_date e = e_date f \<and> e_createdAt e \<le> e_createdAt f)"
proof -
  let ?key = "\<lambda>e. (- e_date e, - e_createdAt e)"
  let ?xs = "sort_key ?key (filter (\<lambda>e. e_userId e = uid) es)"
  have "sorted (map ?key (take 5 ?xs @ drop 5 ?xs))" by (simp add: sorted_sort_key del: sorted_map)
  then have ord: "\<forall>x \<in> set (take 5 ?xs). \<forall>y \<in> set (drop 5 ?xs). ?key x \<le> ?key y"
    unfolding map_append sorted_append by auto
  from assms(1,2) have "e \<in> set (take 5 ?xs @ drop 5 ?xs)" by simp
  with assms(3) have "e \<in> set (drop 5 ?xs)" unfolding recentTransactions_def set_append by blast
  with ord assms(4) have "?key f \<le> ?key e" unfolding recentTransactions_def by blast
  then show ?thesis by auto
qed

lemma formatRecent_Some:
  "formatRecent now cats e = Some t \<Longrightarrow>
     rd_id t = e_id e \<and> rd_date t = e_date e \<and> rd_createdAt t = e_createdAt e
     \<and> rd_userId t = e_userId e \<and> rd_amount t = e_amount e \<and> rd_title t = e_description e
     \<and> (\<exists>c \<in> set cats. c_id c = e_categoryId e \<and> rd_categoryId t = c_id c
           \<and> rd_category t = transformPopulated now c)"
  by (auto simp: formatRecent_def populate_def find_Some_iff split: option.splits)

lemma formatRecent_None_iff:
  "formatRecent now cats e = None \<longleftrightarrow> populate (e_categoryId e) cats = None"
  by (simp add: formatRecent_def split: option.splits)

lemma map_filter_formatRecent:
  "map (\<lambda>t. (rd_id t, rd_date t, rd_createdAt t, rd_userId t))
       (List.map_filter (formatRecent now cats) xs) =
   map (\<lambda>e. (e_id e, e_date e, e_createdAt e, e_userId e))
       (filter (\<lambda>e. populate (e_categoryId e) cats \<noteq> None) xs)"
proof (induction xs)
  case Nil
  then show ?case by simp
next
  case (Cons x xs)
  show ?case
  proof (cases "formatRecent now cats x")
    case None
    with Cons formatRecent_None_iff [of now cats x] show ?thesis by simp
  next
    case (Some t)
    with formatRecent_None_iff [of now cats x] have "populate (e_categoryId x) cats \<noteq> None" by simp
    with Cons Some formatRecent_Some [OF Some] show ?thesis by simp
  qed
qed

lemma map_filter_formatRecent_member:
  "t \<in> set (List.map_filter (formatRecent now cats) xs) \<Longrightarrow>
     \<exists>e \<in> set xs. formatRecent now cats e = Some t"
  by (auto simp: List.map_filter_def)

text \<open>
  C7. For an authenticated user the summary is answered with 200, and its recent list
  has at most 5 entries, each an expense of that user with a category that exists; the
  list is ordered by date descending and, for equal dates, by creation time descending.
  It consists, in order, of exactly those of the fetched expenses whose category can be
  resolved, where the fetched expenses are at most 5 expenses of the user such that no
  other expense of the user comes before any of them in that order. A fetched expense
  with an unresolvable category is left out and the summary still succeeds.
\<close>

theorem recent_activity_list:
  assumes "truthy userId = Some uid"
      and "getExpenseSummary dsum startOfMonth endOfMonth now userId d = (r, d')"
  shows "\<exists>s. r = Response 200 True [] (Some s)
       \<and> length (sm_recentTransactions s) \<le> 5
       \<and> (\<forall>t \<in> set (sm_recentTransactions s).
             rd_userId t = uid \<and> (\<exists>c \<in> set (categories d). c_id c = rd_categoryId t))
       \<and> sorted_wrt (\<lambda>a b. rd_date b < rd_date a
                          \<or> (rd_date a = rd_date b \<and> rd_createdAt b \<le> rd_createdAt a))
           (sm_recentTransactions s)
       \<and> map (\<lambda>t. (rd_id t, rd_date t, rd_createdAt t, rd_userId t)) (sm_recentTransactions s) =
           map (\<lambda>e. (e_id e, e_date e, e_createdAt e, e_userId e))
             (filter (\<lambda>e. populate (e_categoryId e) (categories d) \<noteq> None)
                (recentTransactions uid (expenses d)))
       \<and> length (recentTransactions uid (expenses d)) \<le> 5
       \<and> (\<forall>f \<in> set (recentTransactions uid (expenses d)). f \<in> set (expenses d) \<and> e_userId f = uid
             \<and> (\<forall>e \<in> set (expenses d). e_userId e = uid \<and> e \<notin> set (recentTransactions uid (expenses d))
                   \<longrightarrow> e_date e < e_date f \<or> (e_date e = e_date f \<and> e_createdAt e \<le> e_createdAt f)))"
proof -
  let ?F = "recentTransactions uid (expenses d)"
  let ?R = "List.map_filter (formatRecent now (categories d)) ?F"
  let ?ord = "\<lambda>a b. rd_date b < rd_date a \<or> (rd_date a = rd_date b \<and> rd_createdAt b \<le> rd_createdAt a)"
  from getExpenseSummary_result [OF assms(1), of dsum startOfMonth endOfMonth now d] assms(2)
  obtain s where r: "r = Response 200 True [] (Some s)" and rec: "sm_recentTransactions s = ?R"
    by auto
  have len: "length ?R \<le> 5"
  proof -
    have "length ?R \<le> length ?F" by (simp add: List.map_filter_def)
    with recentTransactions_length [of uid "expenses d"] show ?thesis by linarith
  qed
  have own: "rd_userId t = uid \<and> (\<exists>c \<in> set (categories d). c_id c = rd_categoryId t)"
    if "t \<in> set ?R" for t
  proof -
    from map_filter_formatRecent_member [OF that]
    obtain e where e: "e \<in> set ?F" "formatRecent now (categories d) e = Some t" by blast
    from formatRecent_Some [OF e(2)] recentTransactions_owner [OF e(1)] show ?thesis by auto
  qed
  have keys: "map (\<lambda>t. (rd_id t, rd_date t, rd_createdAt t, rd_userId t)) ?R =
           map (\<lambda>e. (e_id e, e_date e, e_createdAt e, e_userId e))
             (filter (\<lambda>e. populate (e_categoryId e) (categories d) \<noteq> None) ?F)"
    by (rule map_filter_formatRecent)
  have srt: "sorted_wrt ?ord ?R"
  proof -
    let ?P = "\<lambda>e. populate (e_categoryId e) (categories d) \<noteq> None"
    let ?ko = "\<lambda>(a :: string \<times> int \<times> int \<times> string) b.
                  fst (snd b) < fst (snd a) \<or> (fst (snd a) = fst (snd b) \<and> fst (snd (snd b)) \<le> fst (snd (snd a)))"
    have "sorted_wrt (\<lambda>a b. e_date b < e_date a \<or> (e_date a = e_date b \<and> e_createdAt b \<le> e_createdAt a))
            (filter ?P ?F)"
      using recentTransactions_sorted by (rule sorted_wrt_filter)
    then have "sorted_wrt ?ko (map (\<lambda>e. (e_id e, e_date e, e_createdAt e, e_userId e)) (filter ?P ?F))"
      by (simp add: sorted_wrt_map)
    then have "sorted_wrt ?ko (map (\<lambda>t. (rd_id t, rd_date t, rd_createdAt t, rd_userId t)) ?R)"
      by (simp only: keys)
    then show ?thesis by (simp add: sorted_wrt_map)
  qed
  have top: "f \<in> set (expenses d) \<and> e_userId f = uid
             \<and> (\<forall>e \<in> set (expenses d). e_userId e = uid \<and> e \<notin> set ?F
                   \<longrightarrow> e_date e < e_date f \<or> (e_date e = e_date f \<and> e_createdAt e \<le> e_createdAt f))"
    if "f \<in> set ?F" for f
    using recentTransactions_owner [OF that] recentTransactions_most_recent [OF _ _ _ that] by blast
  from r rec len own keys srt top recentTransactions_length [of uid "expenses d"]
  show ?thesis by (intro exI [of _ s]) (simp only: rec, blast)
qed

theorem recent_activity_list_witness:
  "truthy (Some user_B) = Some user_B
   \<and> map_option (\<lambda>s. map (\<lambda>t. (rd_id t, rd_date t)) (sm_recentTransactions s))
       (data (fst (getExpenseSummary sum_list (\<lambda>t. 0) (\<lambda>t. 2678399999) 5000 (Some user_B) summary_db))) =
     Some [(''75a1b2c3d4e5f6a7b8c9d0e2'', 3000), (''75a1b2c3d4e5f6a7b8c9d0e3'', 2000),
           (''75a1b2c3d4e5f6a7b8c9d0e1'', 1000)]
   \<and> map e_id (recentTransactions user_B (expenses summary_db)) =
       [''75a1b2c3d4e5f6a7b8c9d0e4'', ''75a1b2c3d4e5f6a7b8c9d0e2'', ''75a1b2c3d4e5f6a7b8c9d0e3'',
        ''75a1b2c3d4e5f6a7b8c9d0e1'']
   \<and> populate ''65a1b2c3d4e5f6a7b8c9d0ff'' (categories summary_db) = None"
proof -
  have fetched: "recentTransactions user_B (expenses summary_db) =
      [mk_expense ''75a1b2c3d4e5f6a7b8c9d0e4'' 40 ''65a1b2c3d4e5f6a7b8c9d0ff'' 4000,
       mk_expense ''75a1b2c3d4e5f6a7b8c9d0e2'' 75 ''65a1b2c3d4e5f6a7b8c9d0e2'' 3000,
       mk_expense ''75a1b2c3d4e5f6a7b8c9d0e3'' 100 ''65a1b2c3d4e5f6a7b8c9d0e1'' 2000,
       mk_expense ''75a1b2c3d4e5f6a7b8c9d0e1'' 25 ''65a1b2c3d4e5f6a7b8c9d0e1'' 1000]"
    by (simp add: recentTransactions_def summary_db_def mk_expense_def user_B_def)
  have pop: "filter (\<lambda>e. populate (e_categoryId e) (categories summary_db) \<noteq> None)
      (recentTransactions user_B (expenses summary_db)) =
      [mk_expense ''75a1b2c3d4e5f6a7b8c9d0e2'' 75 ''65a1b2c3d4e5f6a7b8c9d0e2'' 3000,
       mk_expense ''75a1b2c3d4e5f6a7b8c9d0e3'' 100 ''65a1b2c3d4e5f6a7b8c9d0e1'' 2000,
       mk_expense ''75a1b2c3d4e5f6a7b8c9d0e1'' 25 ''65a1b2c3d4e5f6a7b8c9d0e1'' 1000]"
    unfolding fetched
    by (simp add: populate_def summary_db_def mk_expense_def example_category_def)
  have dangling: "populate ''65a1b2c3d4e5f6a7b8c9d0ff'' (categories summary_db) = None"
    by (simp add: populate_def summary_db_def example_category_def)
  from recent_activity_list [OF truthy_user_B surjective_pairing,
      of sum_list "\<lambda>t. 0" "\<lambda>t. 2678399999" 5000 summary_db]
  obtain s where s: "fst (getExpenseSummary sum_list (\<lambda>t. 0) (\<lambda>t. 2678399999) 5000 (Some user_B) summary_db) =
      Response 200 True [] (Some s)"
    and keys: "map (\<lambda>t. (rd_id t, rd_date t, rd_createdAt t, rd_userId t)) (sm_recentTransactions s) =
           map (\<lambda>e. (e_id e, e_date e, e_createdAt e, e_userId e))
             (filter (\<lambda>e. populate (e_categoryId e) (categories summary_db) \<noteq> None)
                (recentTransactions user_B (expenses summary_db)))"
    by blast
  have "map (\<lambda>t. (rd_id t, rd_date t)) (sm_recentTransactions s) =
      map (\<lambda>k. (fst k, fst (snd k)))
        (map (\<lambda>t. (rd_id t, rd_date t, rd_createdAt t, rd_userId t)) (sm_recentTransactions s))"
    by simp
  also have "\<dots> = [(''75a1b2c3d4e5f6a7b8c9d0e2'', 3000), (''75a1b2c3d4e5f6a7b8c9d0e3'', 2000),
           (''75a1b2c3d4e5f6a7b8c9d0e1'', 1000)]"
    unfolding keys pop by (simp add: mk_expense_def)
  finally have "map_option (\<lambda>s. map (\<lambda>t. (rd_id t, rd_date t)) (sm_recentTransactions s))
       (data (fst (getExpenseSummary sum_list (\<lambda>t. 0) (\<lambda>t. 2678399999) 5000 (Some user_B) summary_db))) =
     Some [(''75a1b2c3d4e5f6a7b8c9d0e2'', 3000), (''75a1b2c3d4e5f6a7b8c9d0e3'', 2000),
           (''75a1b2c3d4e5f6a7b8c9d0e1'', 1000)]"
    by (simp add: s)
  moreover have "map e_id (recentTransactions user_B (expenses summary_db)) =
       [''75a1b2c3d4e5f6a7b8c9d0e4'', ''75a1b2c3d4e5f6a7b8c9d0e2'', ''75a1b2c3d4e5f6a7b8c9d0e3'',
        ''75a1b2c3d4e5f6a7b8c9d0e1'']"
    unfolding fetched by (simp add: mk_expense_def)
  ultimately show ?thesis using truthy_user_B dangling by blast
qed

subsection \<open>Period statistics\<close>

lemma ceiling_zero_not_pos: "\<lceil>x :: real\<rceil> = 0 \<Longrightarrow> \<not> 0 < x"
  using zero_less_ceiling [of x] by simp

lemma getExpenseStats_matches_nothing:
  assumes "truthy userId = Some uid" and "isValid uid"
  shows "\<exists>s. getExpenseStats dsum isValid startOfMonth startOfYear dateToString now userId period d =
               (Response 200 True [] (Some s), d)
           \<and> st_totalAmount s = 0 \<and> st_totalCount s = 0 \<and> st_averagePerDay s = Some 0
           \<and> st_expensesByCategory s = [] \<and> st_dailyExpenses s = []"
  using assms
  by (simp add: getExpenseStats_def Let_def matchUserId_objectId group_null_def
        lookup_unwind_def group_by_category_def group_by_day_def js_div_def fl_zero
        ceiling_zero_not_pos)

text \<open>
  C3 (the code departs from it). \<open>getExpenseStats\<close> matches \<^verbatim>\<open>userId\<close> against an ObjectId
  while the stored field is a string, so no expense is matched: for the ledger of B,
  whose four expenses of total 240 all lie in the window, the statistics for the
  periods month, week and year report total 0 and count 0, where \<open>getExpenseSummary\<close>,
  which matches against the string, reports 240 for the month.
\<close>

theorem getExpenseStats_totals_of_ledger:
  "map_option (\<lambda>s. (st_totalAmount s, st_totalCount s))
     (data (fst (getExpenseStats sum_list example_isValid (\<lambda>t. 0) (\<lambda>t. 0) (\<lambda>t. ''1970-01-01'') 5000
                   (Some user_B) (Some ''month'') summary_db))) = Some (0, 0)
   \<and> map_option (\<lambda>s. (st_totalAmount s, st_totalCount s))
     (data (fst (getExpenseStats sum_list example_isValid (\<lambda>t. 0) (\<lambda>t. 0) (\<lambda>t. ''1970-01-01'') 5000
                   (Some user_B) (Some ''week'') summary_db))) = Some (0, 0)
   \<and> map_option (\<lambda>s. (st_totalAmount s, st_totalCount s))
     (data (fst (getExpenseStats sum_list example_isValid (\<lambda>t. 0) (\<lambda>t. 0) (\<lambda>t. ''1970-01-01'') 5000
                   (Some user_B) (Some ''year'') summary_db))) = Some (0, 0)
   \<and> sum_list (map e_amount (filter (\<lambda>e. e_userId e = user_B \<and> 0 \<le> e_date e \<and> e_date e \<le> 5000)
        (expenses summary_db))) = 240
   \<and> length (filter (\<lambda>e. e_userId e = user_B \<and> 0 \<le> e_date e \<and> e_date e \<le> 5000)
        (expenses summary_db)) = 4
   \<and> map_option sm_monthlyExpenses
       (data (fst (getExpenseSummary sum_list (\<lambda>t. 0) (\<lambda>t. 2678399999) 5000 (Some user_B) summary_db))) =
     Some 240"
proof -
  have v: "example_isValid user_B" by (simp add: example_isValid_def user_B_def isHex_def)
  have stats: "map_option (\<lambda>s. (st_totalAmount s, st_totalCount s))
     (data (fst (getExpenseStats sum_list example_isValid (\<lambda>t. 0) (\<lambda>t. 0) (\<lambda>t. ''1970-01-01'') 5000
                   (Some user_B) period summary_db))) = Some (0, 0)" for period
    using getExpenseStats_matches_nothing [OF truthy_user_B, of example_isValid, OF v,
        of sum_list "\<lambda>t. 0" "\<lambda>t. 0" "\<lambda>t. ''1970-01-01''" 5000 period summary_db]
    by auto
  have owned: "sum_list (map e_amount (filter (\<lambda>e. e_userId e = user_B \<and> 0 \<le> e_date e \<and> e_date e \<le> 5000)
        (expenses summary_db))) = 240"
    "length (filter (\<lambda>e. e_userId e = user_B \<and> 0 \<le> e_date e \<and> e_date e \<le> 5000)
        (expenses summary_db)) = 4"
    by (simp_all add: summary_db_def mk_expense_def)
  from summary_example have "map_option sm_monthlyExpenses
       (data (fst (getExpenseSummary sum_list (\<lambda>t. 0) (\<lambda>t. 2678399999) 5000 (Some user_B) summary_db))) =
     Some 240"
    by (auto simp: map_option_case split: option.splits)
  with stats owned show ?thesis by blast
qed

end
